theory Spec2Isabelle
  imports Main "HOL-Library.Word"
begin

unbundle bit_operations_syntax

section \<open>Bytes and the hash primitives\<close>

text \<open>
  A \<open>Uint8Array\<close> or \<open>Buffer\<close> is a list of 8-bit words. A Node stream is modelled by the
  sequence of bytes it carries from its first chunk to its end: no stage of the two
  pipelines computes anything that depends on where the chunk boundaries fall.
\<close>

type_synonym byte = "8 word"
type_synonym bytes = "byte list"
type_synonym u32 = "32 word"

subsection \<open>SHA-256 (\<open>createHash(HashType.size256)\<close>), after FIPS 180-4\<close>

definition rotr :: "nat \<Rightarrow> u32 \<Rightarrow> u32" where
  "rotr n x = (drop_bit n x) OR (push_bit (32 - n) x)"

definition ch :: "u32 \<Rightarrow> u32 \<Rightarrow> u32 \<Rightarrow> u32" where
  "ch x y z = (x AND y) XOR (NOT x AND z)"

definition maj :: "u32 \<Rightarrow> u32 \<Rightarrow> u32 \<Rightarrow> u32" where
  "maj x y z = (x AND y) XOR (x AND z) XOR (y AND z)"

definition bsig0 :: "u32 \<Rightarrow> u32" where
  "bsig0 x = rotr 2 x XOR rotr 13 x XOR rotr 22 x"

definition bsig1 :: "u32 \<Rightarrow> u32" where
  "bsig1 x = rotr 6 x XOR rotr 11 x XOR rotr 25 x"

definition ssig0 :: "u32 \<Rightarrow> u32" where
  "ssig0 x = rotr 7 x XOR rotr 18 x XOR drop_bit 3 x"

definition ssig1 :: "u32 \<Rightarrow> u32" where
  "ssig1 x = rotr 17 x XOR rotr 19 x XOR drop_bit 10 x"

text \<open>
  The round constants (the first 32 bits of the fractional parts of the cube roots of the
  first 64 primes) and the initial hash value (the same of the square roots of the
  first 8 primes), in decimal.
\<close>

definition sha256_k :: "u32 list" where
  "sha256_k = [
    1116352408, 1899447441, 3049323471, 3921009573, 961987163, 1508970993, 2453635748, 2870763221,
    3624381080, 310598401, 607225278, 1426881987, 1925078388, 2162078206, 2614888103, 3248222580,
    3835390401, 4022224774, 264347078, 604807628, 770255983, 1249150122, 1555081692, 1996064986,
    2554220882, 2821834349, 2952996808, 3210313671, 3336571891, 3584528711, 113926993, 338241895,
    666307205, 773529912, 1294757372, 1396182291, 1695183700, 1986661051, 2177026350, 2456956037,
    2730485921, 2820302411, 3259730800, 3345764771, 3516065817, 3600352804, 4094571909, 275423344,
    430227734, 506948616, 659060556, 883997877, 958139571, 1322822218, 1537002063, 1747873779,
    1955562222, 2024104815, 2227730452, 2361852424, 2428436474, 2756734187, 3204031479, 3329325298]"

definition sha256_init :: "u32 list" where
  "sha256_init = [1779033703, 3144134277, 1013904242, 2773480762,
                  1359893119, 2600822924, 528734635, 1541459225]"

definition be32 :: "bytes \<Rightarrow> u32" where
  "be32 bs = foldl (\<lambda>acc b. push_bit 8 acc OR ucast b) 0 bs"

definition u32_bytes :: "u32 \<Rightarrow> bytes" where
  "u32_bytes w = [ucast (drop_bit 24 w), ucast (drop_bit 16 w), ucast (drop_bit 8 w), ucast w]"

definition u64_bytes :: "64 word \<Rightarrow> bytes" where
  "u64_bytes w = map (\<lambda>i. ucast (drop_bit (8 * (7 - i)) w)) [0..<8]"

fun chunks :: "nat \<Rightarrow> nat \<Rightarrow> 'a list \<Rightarrow> 'a list list" where
  "chunks 0 n xs = []"
| "chunks (Suc k) n xs = take n xs # chunks k n (drop n xs)"

definition sha256_pad :: "bytes \<Rightarrow> bytes" where
  "sha256_pad m = m @ [0x80] @ replicate ((119 - length m mod 64) mod 64) 0
                    @ u64_bytes (word_of_nat (8 * length m))"

fun schedule :: "nat \<Rightarrow> u32 list \<Rightarrow> u32 list" where
  "schedule 0 ws = ws"
| "schedule (Suc k) ws =
     (let t = length ws in
      schedule k (ws @ [ssig1 (ws ! (t - 2)) + ws ! (t - 7) + ssig0 (ws ! (t - 15)) + ws ! (t - 16)]))"

fun sha256_round :: "u32 list \<Rightarrow> u32 \<times> u32 \<Rightarrow> u32 list" where
  "sha256_round [a, b, c, d, e, f, g, h] (k, w) =
     (let t1 = h + bsig1 e + ch e f g + k + w;
          t2 = bsig0 a + maj a b c
      in [t1 + t2, a, b, c, d + t1, e, f, g])"
| "sha256_round s _ = s"

definition sha256_block :: "u32 list \<Rightarrow> bytes \<Rightarrow> u32 list" where
  "sha256_block hs blk =
     (let ws = schedule 48 (map be32 (chunks 16 4 blk))
      in map2 (+) hs (foldl sha256_round hs (zip sha256_k ws)))"

definition sha256 :: "bytes \<Rightarrow> bytes" where
  "sha256 m =
     (let p = sha256_pad m
      in concat (map u32_bytes (foldl sha256_block sha256_init (chunks (length p div 64) 64 p))))"

subsection \<open>HMAC-SHA-256 (\<open>createHmac(HashType.size256, key)\<close>), after RFC 2104\<close>

definition hmac_sha256 :: "bytes \<Rightarrow> bytes \<Rightarrow> bytes" where
  "hmac_sha256 key msg =
     (let k0 = (if length key > 64 then sha256 key else key);
          k = k0 @ replicate (64 - length k0) 0
      in sha256 (map (\<lambda>b. b XOR 0x5c) k @ sha256 (map (\<lambda>b. b XOR 0x36) k @ msg)))"

subsection \<open>Lowercase hexadecimal (\<open>digest('hex')\<close>)\<close>

definition hexdigit :: "nat \<Rightarrow> char" where
  "hexdigit n = ''0123456789abcdef'' ! n"

definition toHex :: "bytes \<Rightarrow> string" where
  "toHex bs = concat (map (\<lambda>b. [hexdigit (unat b div 16), hexdigit (unat b mod 16)]) bs)"

subsection \<open>Hash and Hmac objects\<close>

text \<open>
  A \<open>Hash\<close> object is the bytes fed to it so far; \<open>update\<close> appends and \<open>digest\<close> hashes
  them. An \<open>Hmac\<close> object is the same with its key.
\<close>

type_synonym Hash = bytes
type_synonym Hmac = "bytes \<times> bytes"

definition createHash :: Hash where
  "createHash = []"

definition hash_update :: "Hash \<Rightarrow> bytes \<Rightarrow> Hash" where
  "hash_update h chunk = h @ chunk"

definition hash_digest :: "Hash \<Rightarrow> bytes" where
  "hash_digest h = sha256 h"

definition hash_digest_hex :: "Hash \<Rightarrow> string" where
  "hash_digest_hex h = toHex (sha256 h)"

definition createHmac :: "bytes \<Rightarrow> Hmac" where
  "createHmac key = (key, [])"

definition hmac_update :: "Hmac \<Rightarrow> bytes \<Rightarrow> Hmac" where
  "hmac_update h chunk = (fst h, snd h @ chunk)"

definition hmac_digest :: "Hmac \<Rightarrow> bytes" where
  "hmac_digest h = hmac_sha256 (fst h) (snd h)"

section \<open>Constants and errors\<close>

text \<open>
  Modelled from the spec: \<open>IV_LENGTH\<close>, \<open>KEY_LENGTH\<close> and \<open>MAC_LENGTH\<close> are imported from
  \<open>./types/Crypto\<close>, which is not among the sources; section 4.7 gives their values.
\<close>

definition IV_LENGTH :: nat where "IV_LENGTH = 16"
definition KEY_LENGTH :: nat where "KEY_LENGTH = 32"
definition MAC_LENGTH :: nat where "MAC_LENGTH = 32"

text \<open>Lines 38 to 45 of \<open>AttachmentCrypto.ts\<close> compute the other four from them.\<close>

definition DIGEST_LENGTH :: nat where "DIGEST_LENGTH = MAC_LENGTH"
definition HEX_DIGEST_LENGTH :: nat where "HEX_DIGEST_LENGTH = DIGEST_LENGTH * 2"
definition ATTACHMENT_MAC_LENGTH :: nat where "ATTACHMENT_MAC_LENGTH = MAC_LENGTH"
definition KEY_SET_LENGTH :: nat where "KEY_SET_LENGTH = KEY_LENGTH + MAC_LENGTH"

text \<open>
  The source throws \<open>Error\<close> objects that differ in their message (and, for aborts, in
  their \<open>name\<close>); the spec names the kinds. Each throw site is mapped to one kind:
  the \<open>strictAssert\<close> of \<open>splitKeys\<close> is \<open>InvalidKeyLength\<close>, the one on
  \<open>digestToMatch\<close> is \<open>InvalidDigestLength\<close>, the one of \<open>prependIv\<close> is
  \<open>InvalidIvLength\<close>, the two test-only guards are \<open>TestOnlyFeatureUsed\<close>, the
  asserts on finished hashes and captured values are \<open>Internal\<close>, an error whose
  \<open>name\<close> is \<open>AbortError\<close> is \<open>Aborted\<close>, and the two wrapped open failures
  (\<open>Read path doesn't exist\<close>, \<open>Failed to create write path\<close>) are \<open>IoOpen\<close>.
\<close>

datatype error =
    InvalidKeyLength | InvalidIvLength | InvalidDigestLength | TestOnlyFeatureUsed
  | BadMac | BadOuterMac | BadDigest | ReencryptedDigestMismatch | TruncatedFrame
  | IoOpen | IoRead | IoWrite | IoUnlink | Aborted | Internal

datatype errno = ENOENT | EPERM

datatype log_entry = LogInfo string | LogError string error

section \<open>The world outside the engine\<close>

text \<open>
  What the engine reads and writes: the files, what the operating system refuses, the
  random generator and the log. \<open>readFault p\<close> is the error the read stream of \<open>p\<close>
  raises, if any; \<open>createDenied p\<close> makes \<open>ensureFile\<close> and opening for writing
  fail at \<open>p\<close>; \<open>unlinkDenied p\<close> makes \<open>unlinkSync p\<close> fail with a code other than
  \<open>ENOENT\<close>. \<open>randomBytes n\<close> takes the next \<open>n\<close> bytes of \<open>entropy\<close>.
\<close>

record world =
  files :: "string \<Rightarrow> bytes option"
  readFault :: "string \<Rightarrow> error option"
  createDenied :: "string \<Rightarrow> bool"
  unlinkDenied :: "string \<Rightarrow> bool"
  entropy :: "nat \<Rightarrow> byte"
  drawn :: nat
  logs :: "log_entry list"

definition log_info :: "string \<Rightarrow> world \<Rightarrow> world" where
  "log_info msg w = w\<lparr>logs := logs w @ [LogInfo msg]\<rparr>"

definition log_error :: "string \<Rightarrow> error \<Rightarrow> world \<Rightarrow> world" where
  "log_error msg e w = w\<lparr>logs := logs w @ [LogError msg e]\<rparr>"

definition randomBytes :: "nat \<Rightarrow> world \<Rightarrow> bytes \<times> world" where
  "randomBytes n w = (map (entropy w) [drawn w..<drawn w + n], w\<lparr>drawn := drawn w + n\<rparr>)"

definition ensureFile :: "string \<Rightarrow> world \<Rightarrow> error + world" where
  "ensureFile p w =
     (if files w p \<noteq> None then Inr w
      else if createDenied w p then Inl IoOpen
      else Inr (w\<lparr>files := (files w)(p \<mapsto> [])\<rparr>))"

definition openForWrite :: "string \<Rightarrow> world \<Rightarrow> error + world" where
  "openForWrite p w =
     (if createDenied w p then Inl IoOpen
      else Inr (w\<lparr>files := (files w)(p \<mapsto> [])\<rparr>))"

definition unlinkSync :: "string \<Rightarrow> world \<Rightarrow> errno + world" where
  "unlinkSync p w =
     (if files w p = None then Inl ENOENT
      else if unlinkDenied w p then Inl EPERM
      else Inr (w\<lparr>files := (files w)(p := None)\<rparr>))"

text \<open>
  A readable file stream: opening a missing file fails; a file that opens yields its
  contents unless the stream raises \<open>readFault\<close>.
\<close>

definition readFileStream :: "string \<Rightarrow> world \<Rightarrow> error + bytes" where
  "readFileStream p w =
     (case files w p of
        None \<Rightarrow> Inl IoOpen
      | Some content \<Rightarrow> (case readFault w p of Some e \<Rightarrow> Inl e | None \<Rightarrow> Inr content))"

text \<open>
  A \<open>Writable\<close>: a file write stream (\<open>createWriteStream\<close>, flag \<open>w\<close>), a sink in
  memory, or a sink that fails with the given error when it is written to (a response
  stream the consumer has cancelled fails with \<open>Aborted\<close>). \<open>pipeToSink\<close> gives the
  error if any, the bytes the sink received, and the world after.
\<close>

datatype Writable = FileSink string | MemorySink | BrokenSink error

fun pipeToSink :: "Writable \<Rightarrow> bytes \<Rightarrow> world \<Rightarrow> error option \<times> bytes \<times> world" where
  "pipeToSink (FileSink p) out w =
     (if createDenied w p then (Some IoWrite, [], w)
      else (None, out, w\<lparr>files := (files w)(p \<mapsto> out)\<rparr>))"
| "pipeToSink MemorySink out w = (None, out, w)"
| "pipeToSink (BrokenSink e) out w = (Some e, [], w)"

text \<open>A pipeline that fails before its sink still opens a file sink, which truncates the file.\<close>

fun abandonSink :: "Writable \<Rightarrow> world \<Rightarrow> world" where
  "abandonSink (FileSink p) w =
     (if createDenied w p then w else w\<lparr>files := (files w)(p \<mapsto> [])\<rparr>)"
| "abandonSink _ w = w"

section \<open>Injected collaborators\<close>

text \<open>
  Modelled from the spec: \<open>logPadSize\<close> (\<open>./util/logPadding\<close>, the spec's \<open>padTarget\<close>),
  the base64 encoder and decoder (\<open>./Bytes\<close>, \<open>Buffer\<close>) and the environment query
  (\<open>./environment\<close>) are not among the sources; sections 1 and 6 make them injected
  collaborators, and they are fields of the record the engine is run on.
  The record also holds Node's AES-256-CBC: \<open>createCipheriv key iv\<close> and
  \<open>createDecipheriv key iv\<close>, each as the function from everything written into it to
  everything it emits up to and including \<open>final()\<close>; the decipher may reject its input.
\<close>

record platform =
  createCipheriv :: "bytes \<Rightarrow> bytes \<Rightarrow> bytes \<Rightarrow> bytes"
  createDecipheriv :: "bytes \<Rightarrow> bytes \<Rightarrow> bytes \<Rightarrow> error + bytes"
  logPadSize :: "nat \<Rightarrow> nat"
  fromBase64 :: "string \<Rightarrow> bytes"
  toBase64 :: "bytes \<Rightarrow> string"
  isTestEnvironment :: bool

section \<open>Key utilities\<close>

text \<open>\<open>TypedArray.subarray(begin, end)\<close> for indices that are not negative: both are clamped.\<close>

definition subarray :: "nat \<Rightarrow> nat \<Rightarrow> bytes \<Rightarrow> bytes" where
  "subarray b e xs = take (e - b) (drop b xs)"

record AttachmentEncryptionKeysType =
  aesKey :: bytes
  macKey :: bytes

definition splitKeys :: "bytes \<Rightarrow> error + AttachmentEncryptionKeysType" where
  "splitKeys ks =
     (if length ks \<noteq> KEY_SET_LENGTH then Inl InvalidKeyLength
      else Inr \<lparr>aesKey = subarray 0 KEY_LENGTH ks,
                macKey = subarray KEY_LENGTH KEY_SET_LENGTH ks\<rparr>)"

definition generateAttachmentIv :: "world \<Rightarrow> bytes \<times> world" where
  "generateAttachmentIv w = randomBytes IV_LENGTH w"


section \<open>Stream primitives\<close>

definition peekAndUpdateHash :: "Hash \<Rightarrow> bytes \<Rightarrow> Hash \<times> bytes" where
  "peekAndUpdateHash hash stream = (hash_update hash stream, stream)"

definition measureSize :: "bytes \<Rightarrow> nat \<times> bytes" where
  "measureSize stream = (length stream, stream)"

text \<open>
  The stages below are imported by \<open>AttachmentCrypto.ts\<close> from \<open>./util\<close> and \<open>./Crypto\<close>,
  which are not among the sources; each follows its item of section 4.2.
\<close>

text \<open>
  Modelled from the spec: \<open>prependStream\<close> (\<open>./util/prependStream\<close>) emits the IV before
  the first chunk; the cipher before it always emits a chunk.
\<close>

definition prependStream :: "bytes \<Rightarrow> bytes \<Rightarrow> bytes" where
  "prependStream data stream = data @ stream"

text \<open>
  Modelled from the spec: \<open>appendPaddingStream\<close> (\<open>./util/logPadding\<close>) passes \<open>n\<close>
  plaintext bytes on and emits \<open>padTarget n - n\<close> zero bytes at the end.
\<close>

definition appendPaddingStream :: "platform \<Rightarrow> bytes \<Rightarrow> bytes" where
  "appendPaddingStream pf stream =
     stream @ replicate (logPadSize pf (length stream) - length stream) 0"

text \<open>
  Modelled from the spec: \<open>appendMacStream\<close> (\<open>./util/appendMacStream\<close>) re-emits its
  input, then emits the HMAC-SHA-256 of it, which it also hands to its callback.
\<close>

definition appendMacStream :: "bytes \<Rightarrow> bytes \<Rightarrow> bytes \<times> bytes" where
  "appendMacStream mkey stream =
     (let macValue = hmac_digest (hmac_update (createHmac mkey) stream)
      in (stream @ macValue, macValue))"

text \<open>
  Modelled from the spec: \<open>getMacAndUpdateHmac\<close> (\<open>./util/getMacAndUpdateHmac\<close>) fails
  with \<open>TruncatedFrame\<close> on a stream of fewer than 32 bytes; otherwise it holds back the
  last 32 bytes for its callback, and emits and feeds to the Hmac the bytes before them.
\<close>

definition getMacAndUpdateHmac :: "Hmac \<Rightarrow> bytes \<Rightarrow> error + (bytes \<times> Hmac \<times> bytes)" where
  "getMacAndUpdateHmac hmac stream =
     (if length stream < MAC_LENGTH then Inl TruncatedFrame
      else let body = take (length stream - MAC_LENGTH) stream;
               theirMacValue = drop (length stream - MAC_LENGTH) stream
           in Inr (body, hmac_update hmac body, theirMacValue))"

text \<open>
  Modelled from the spec: \<open>getIvAndDecipher\<close> (\<open>./util/getIvAndDecipher\<close>) buffers until
  16 bytes are there, takes them as the IV, hands it to its callback and emits the
  deciphered rest. With fewer than 16 bytes it finds no IV and emits nothing (the
  decryptor asserts after its pipeline that an IV was found).
\<close>

definition getIvAndDecipher :: "platform \<Rightarrow> bytes \<Rightarrow> bytes \<Rightarrow> bytes option \<times> (error + bytes)" where
  "getIvAndDecipher pf akey stream =
     (if length stream < IV_LENGTH then (None, Inr [])
      else let theirIv = take IV_LENGTH stream
           in (Some theirIv, createDecipheriv pf akey theirIv (drop IV_LENGTH stream)))"

text \<open>
  Modelled from the spec: \<open>trimPadding\<close> (\<open>./util/trimPadding\<close>) emits the first \<open>size\<close>
  bytes of its input and drops the rest.
\<close>

definition trimPadding :: "nat \<Rightarrow> bytes \<Rightarrow> bytes" where
  "trimPadding n stream = take n stream"

text \<open>
  Modelled from the spec: \<open>constantTimeEqual\<close> (\<open>./Crypto\<close>) is the equality of two byte
  strings; the time it takes is not modelled.
\<close>

definition constantTimeEqual :: "bytes \<Rightarrow> bytes \<Rightarrow> bool" where
  "constantTimeEqual left right = (left = right)"

text \<open>
  \<open>prependIv\<close> asserts the length when the stage is built and returns the stage.
\<close>

definition prependIv :: "bytes \<Rightarrow> error + (bytes \<Rightarrow> bytes)" where
  "prependIv v =
     (if length v \<noteq> IV_LENGTH then Inl InvalidIvLength else Inr (prependStream v))"

section \<open>Lengths and the standalone hash\<close>

definition getAesCbcCiphertextLength :: "nat \<Rightarrow> nat" where
  "getAesCbcCiphertextLength plaintextLength = (1 + plaintextLength div 16) * 16"


definition getPlaintextHashForInMemoryAttachment :: "bytes \<Rightarrow> string" where
  "getPlaintextHashForInMemoryAttachment d = hash_digest_hex (hash_update createHash d)"

section \<open>The temp-file guard\<close>

definition safeUnlinkSync :: "string \<Rightarrow> world \<Rightarrow> error option \<times> world" where
  "safeUnlinkSync filePath w =
     (case unlinkSync filePath w of
        Inr w' \<Rightarrow> (None, w')
      | Inl code \<Rightarrow>
          if code \<noteq> ENOENT then (Some IoUnlink, log_error ''Failed to unlink'' IoUnlink w)
          else (None, w))"

section \<open>The encryptor\<close>

text \<open>A readable \<open>stream\<close> is the bytes it will yield, or the error it raises.\<close>

datatype PlaintextSourceType = Data bytes | Stream "error + bytes" | AbsolutePath string

datatype HardcodedIVForEncryptionType = TestIv bytes | ReencryptingForBackup bytes bytes

fun hardcodedIv :: "HardcodedIVForEncryptionType \<Rightarrow> bytes" where
  "hardcodedIv (TestIv v) = v"
| "hardcodedIv (ReencryptingForBackup v digestToMatch) = v"

record EncryptAttachmentV2PropsType =
  plaintext :: PlaintextSourceType
  keys :: bytes
  dangerousIv :: "HardcodedIVForEncryptionType option"
  dangerousTestOnlySkipPadding :: bool
  getAbsoluteAttachmentPath :: "string \<Rightarrow> string"

record EncryptedAttachmentV2 =
  digest :: bytes
  iv :: bytes
  plaintextHash :: string
  ciphertextSize :: nat

record EncryptedAttachmentV2OnDisk = EncryptedAttachmentV2 +
  path :: string

fun readSource :: "PlaintextSourceType \<Rightarrow> world \<Rightarrow> error + bytes" where
  "readSource (Data d) w = Inr d"
| "readSource (Stream s) w = s"
| "readSource (AbsolutePath p) w = readFileStream p w"

text \<open>\<open>sink ?? new PassThrough().resume()\<close>: without a sink the output is discarded.\<close>

fun sinkOrDiscard :: "Writable option \<Rightarrow> bytes \<Rightarrow> world \<Rightarrow> error option \<times> bytes \<times> world" where
  "sinkOrDiscard (Some s) out w = pipeToSink s out w"
| "sinkOrDiscard None out w = (None, [], w)"

fun abandonOptSink :: "Writable option \<Rightarrow> world \<Rightarrow> world" where
  "abandonOptSink (Some s) w = abandonSink s w"
| "abandonOptSink None w = w"

text \<open>Lines 139 to 157: the guards on \<open>dangerousIv\<close>.\<close>

definition checkDangerousIv ::
  "platform \<Rightarrow> HardcodedIVForEncryptionType option \<Rightarrow> world \<Rightarrow> error + world" where
  "checkDangerousIv pf d w =
     (case d of
        None \<Rightarrow> Inr w
      | Some (TestIv v) \<Rightarrow>
          if \<not> isTestEnvironment pf then Inl TestOnlyFeatureUsed else Inr w
      | Some (ReencryptingForBackup v digestToMatch) \<Rightarrow>
          if length digestToMatch \<noteq> DIGEST_LENGTH then Inl InvalidDigestLength
          else Inr (log_info
            ''encryptAttachmentV2: using hardcoded iv because we are re-encrypting for backup'' w))"

text \<open>Line 165: \<open>dangerousIv?.iv || _generateAttachmentIv()\<close> (a typed array is always truthy).\<close>

definition chooseIv :: "HardcodedIVForEncryptionType option \<Rightarrow> world \<Rightarrow> bytes \<times> world" where
  "chooseIv d w = (case d of Some h \<Rightarrow> (hardcodedIv h, w) | None \<Rightarrow> generateAttachmentIv w)"

text \<open>
  Lines 172 to 198: the stages are built (which is where \<open>prependIv\<close> asserts; Node's
  \<open>createCipheriv\<close> refuses an IV that is not 16 bytes at the same point), then the
  pipeline runs from the source to the sink. The result holds the two hashes and the
  two values the callbacks captured.
\<close>

definition runEncryptPipeline ::
  "platform \<Rightarrow> bytes \<Rightarrow> bytes \<Rightarrow> bytes \<Rightarrow> PlaintextSourceType \<Rightarrow> bool \<Rightarrow> Writable option \<Rightarrow> world
     \<Rightarrow> (error + (Hash \<times> Hash \<times> nat option \<times> bytes option)) \<times> bytes \<times> world" where
  "runEncryptPipeline pf akey mkey v src skipPadding sink w =
     (case prependIv v of
        Inl e \<Rightarrow> (Inl e, [], abandonOptSink sink w)
      | Inr prepend \<Rightarrow>
          (case readSource src w of
             Inl e \<Rightarrow> (Inl e, [], abandonOptSink sink w)
           | Inr s0 \<Rightarrow>
               (let (plaintextHashState, s1) = peekAndUpdateHash createHash s0;
                    s2 = (if skipPadding then s1 else appendPaddingStream pf s1);
                    s3 = createCipheriv pf akey v s2;
                    s4 = prepend s3;
                    (s5, macValue) = appendMacStream mkey s4;
                    (digestState, s6) = peekAndUpdateHash createHash s5;
                    (n, s7) = measureSize s6
                in (case sinkOrDiscard sink s7 w of
                      (Some e, delivered, w') \<Rightarrow> (Inl e, delivered, w')
                    | (None, delivered, w') \<Rightarrow>
                        (Inr (plaintextHashState, digestState, Some n, Some macValue),
                         delivered, w')))))"

text \<open>Lines 207 to 236: the asserts on what the pipeline left, and the digest to match.\<close>

definition finishEncrypt ::
  "HardcodedIVForEncryptionType option \<Rightarrow> bytes \<Rightarrow> Hash \<times> Hash \<times> nat option \<times> bytes option
     \<Rightarrow> error + EncryptedAttachmentV2" where
  "finishEncrypt d v captured =
     (case captured of (plaintextHashState, digestState, sizeVar, macVar) \<Rightarrow>
        (let ourPlaintextHash = hash_digest_hex plaintextHashState;
             ourDigest = hash_digest digestState
         in if length ourPlaintextHash \<noteq> HEX_DIGEST_LENGTH then Inl Internal
            else if length ourDigest \<noteq> DIGEST_LENGTH then Inl Internal
            else (case sizeVar of
                    None \<Rightarrow> Inl Internal
                  | Some n \<Rightarrow>
                      (case macVar of
                         None \<Rightarrow> Inl Internal
                       | Some m \<Rightarrow>
                           (case d of
                              Some (ReencryptingForBackup _ digestToMatch) \<Rightarrow>
                                if \<not> constantTimeEqual ourDigest digestToMatch
                                then Inl ReencryptedDigestMismatch
                                else Inr \<lparr>digest = ourDigest, iv = v,
                                          plaintextHash = ourPlaintextHash, ciphertextSize = n\<rparr>
                            | _ \<Rightarrow> Inr \<lparr>digest = ourDigest, iv = v,
                                        plaintextHash = ourPlaintextHash, ciphertextSize = n\<rparr>)))))"

definition encryptAttachmentV2 ::
  "platform \<Rightarrow> 'a EncryptAttachmentV2PropsType_scheme \<Rightarrow> Writable option \<Rightarrow> world
     \<Rightarrow> (error + EncryptedAttachmentV2) \<times> bytes \<times> world" where
  "encryptAttachmentV2 pf props sink w =
     (case splitKeys (keys props) of
        Inl e \<Rightarrow> (Inl e, [], w)
      | Inr ks \<Rightarrow>
          (case checkDangerousIv pf (dangerousIv props) w of
             Inl e \<Rightarrow> (Inl e, [], w)
           | Inr w1 \<Rightarrow>
               if dangerousTestOnlySkipPadding props \<and> \<not> isTestEnvironment pf
               then (Inl TestOnlyFeatureUsed, [], w1)
               else (case chooseIv (dangerousIv props) w1 of (v, w2) \<Rightarrow>
                 (case runEncryptPipeline pf (aesKey ks) (macKey ks) v (plaintext props)
                         (dangerousTestOnlySkipPadding props) sink w2 of
                    (Inl e, delivered, w3) \<Rightarrow>
                      (Inl e, delivered,
                       log_error ''encryptAttachmentV2: Failed to encrypt attachment'' e w3)
                  | (Inr captured, delivered, w3) \<Rightarrow>
                      (finishEncrypt (dangerousIv props) v captured, delivered, w3)))))"

text \<open>
  \<open>relativeTargetPath\<close> is the value of \<open>getRelativePath(createName())\<close>, a random name
  chosen outside the engine.
\<close>

definition encryptAttachmentV2ToDisk ::
  "platform \<Rightarrow> 'a EncryptAttachmentV2PropsType_scheme \<Rightarrow> string \<Rightarrow> world
     \<Rightarrow> (error + EncryptedAttachmentV2OnDisk) \<times> world" where
  "encryptAttachmentV2ToDisk pf args relativeTargetPath w =
     (let absoluteTargetPath = getAbsoluteAttachmentPath args relativeTargetPath
      in (case ensureFile absoluteTargetPath w of
            Inl e \<Rightarrow> (Inl e, w)
          | Inr w1 \<Rightarrow>
              (case encryptAttachmentV2 pf args (Some (FileSink absoluteTargetPath)) w1 of
                 (Inl e, delivered, w2) \<Rightarrow>
                   (case safeUnlinkSync absoluteTargetPath w2 of
                      (Some unlinkError, w3) \<Rightarrow> (Inl unlinkError, w3)
                    | (None, w3) \<Rightarrow> (Inl e, w3))
               | (Inr r, delivered, w2) \<Rightarrow>
                   (Inr \<lparr>digest = digest r, iv = iv r, plaintextHash = plaintextHash r,
                         ciphertextSize = ciphertextSize r, path = relativeTargetPath\<rparr>, w2))))"

section \<open>The decryptor\<close>

datatype IntegrityType = Standard bytes | Local | BackupThumbnail

datatype DecryptKeysType = AesMacKeys bytes bytes | KeysBase64 string

record DecryptAttachmentToSinkOptionsType =
  ciphertextPath :: string
  idForLogging :: string
  size_opt :: nat
  outerEncryption :: "AttachmentEncryptionKeysType option"
  integrity :: IntegrityType
  decryptKeys :: DecryptKeysType

record DecryptAttachmentOptionsType = DecryptAttachmentToSinkOptionsType +
  getAbsoluteAttachmentPath' :: "string \<Rightarrow> string"

record DecryptedToSink =
  d_iv :: bytes
  d_plaintextHash :: string

record DecryptedAttachmentV2 = DecryptedToSink +
  d_path :: string


text \<open>Lines 326 to 333: the keys are given, or decoded from base64 and split.\<close>

definition resolveKeys :: "platform \<Rightarrow> DecryptKeysType \<Rightarrow> error + AttachmentEncryptionKeysType" where
  "resolveKeys pf k =
     (case k of
        AesMacKeys a m \<Rightarrow> Inr \<lparr>aesKey = a, macKey = m\<rparr>
      | KeysBase64 keysBase64 \<Rightarrow> splitKeys (fromBase64 pf keysBase64))"

text \<open>Lines 403 to 418: the switch on the integrity mode.\<close>

fun checkIntegrityType :: "string \<Rightarrow> IntegrityType \<Rightarrow> bytes \<Rightarrow> world \<Rightarrow> error option \<times> world" where
  "checkIntegrityType logId Local ourDigest w =
     (None, log_info (logId @ '': skipping digest check since this is a local attachment'') w)"
| "checkIntegrityType logId BackupThumbnail ourDigest w =
     (None, log_info
        (logId @ '': skipping digest check since this is a backupThumbnail attachment'') w)"
| "checkIntegrityType logId (Standard theirDigest) ourDigest w =
     (if \<not> constantTimeEqual ourDigest theirDigest then (Some BadDigest, w) else (None, w))"

text \<open>
  Lines 382 to 440: the callback of \<open>finalStream\<close>. \<open>outer\<close> is the outer Hmac and the
  outer MAC that was held back, present when \<open>outerEncryption\<close> is.
\<close>

definition finalStreamCheck ::
  "string \<Rightarrow> IntegrityType \<Rightarrow> Hmac \<Rightarrow> Hash \<Rightarrow> bytes option \<Rightarrow> (Hmac \<times> bytes option) option
     \<Rightarrow> world \<Rightarrow> error option \<times> world" where
  "finalStreamCheck logId ty hmac digestState theirMac outer w =
     (let ourMac = hmac_digest hmac;
          ourDigest = hash_digest digestState
      in if length ourMac \<noteq> ATTACHMENT_MAC_LENGTH then (Some Internal, w)
         else (case theirMac of
                 None \<Rightarrow> (Some Internal, w)
               | Some tm \<Rightarrow>
                   if length tm \<noteq> ATTACHMENT_MAC_LENGTH then (Some Internal, w)
                   else if length ourDigest \<noteq> DIGEST_LENGTH then (Some Internal, w)
                   else if \<not> constantTimeEqual ourMac tm then (Some BadMac, w)
                   else (case checkIntegrityType logId ty ourDigest w of
                           (Some e, w1) \<Rightarrow> (Some e, w1)
                         | (None, w1) \<Rightarrow>
                             (case outer of
                                None \<Rightarrow> (None, w1)
                              | Some (outerHmac, theirOuterMac) \<Rightarrow>
                                  (let ourOuterMac = hmac_digest outerHmac
                                   in if length ourOuterMac \<noteq> ATTACHMENT_MAC_LENGTH
                                      then (Some Internal, w1)
                                      else (case theirOuterMac of
                                              None \<Rightarrow> (Some Internal, w1)
                                            | Some tom \<Rightarrow>
                                                if length tom \<noteq> ATTACHMENT_MAC_LENGTH
                                                then (Some Internal, w1)
                                                else if \<not> constantTimeEqual ourOuterMac tom
                                                then (Some BadOuterMac, w1)
                                                else (None, w1)))))))"

text \<open>The two optional stages that peel the outer frame off.\<close>

definition peelOuter ::
  "platform \<Rightarrow> AttachmentEncryptionKeysType option \<Rightarrow> bytes
     \<Rightarrow> error + (bytes \<times> (Hmac \<times> bytes option) option)" where
  "peelOuter pf outer raw =
     (case outer of
        None \<Rightarrow> Inr (raw, None)
      | Some oe \<Rightarrow>
          (case getMacAndUpdateHmac (createHmac (macKey oe)) raw of
             Inl e \<Rightarrow> Inl e
           | Inr (s, outerHmac, theirOuterMac) \<Rightarrow>
               (case getIvAndDecipher pf (aesKey oe) s of
                  (outerIv, Inl e) \<Rightarrow> Inl e
                | (outerIv, Inr inner) \<Rightarrow> Inr (inner, Some (outerHmac, Some theirOuterMac)))))"

text \<open>
  Lines 361 to 443. The stages run in the order of the pipeline and the first that
  fails decides the error. \<open>finalStream\<close> passes every chunk on and runs its callback
  when its input has ended, so the sink has been fed the recovered bytes when the
  callback throws.
\<close>

definition runDecryptPipeline ::
  "platform \<Rightarrow> string \<Rightarrow> 'a DecryptAttachmentToSinkOptionsType_scheme \<Rightarrow> bytes \<Rightarrow> bytes \<Rightarrow> Writable
     \<Rightarrow> world \<Rightarrow> (error + (bytes option \<times> Hash)) \<times> bytes \<times> world" where
  "runDecryptPipeline pf logId options akey mkey sink w =
     (case readFileStream (ciphertextPath options) w of
        Inl e \<Rightarrow> (Inl e, [], w)
      | Inr raw \<Rightarrow>
          (case peelOuter pf (outerEncryption options) raw of
             Inl e \<Rightarrow> (Inl e, [], w)
           | Inr (inner, outer) \<Rightarrow>
               (let (digestState, s1) = peekAndUpdateHash createHash inner
                in (case getMacAndUpdateHmac (createHmac mkey) s1 of
                      Inl e \<Rightarrow> (Inl e, [], w)
                    | Inr (s2, hmac, theirMac) \<Rightarrow>
                        (case getIvAndDecipher pf akey s2 of
                           (theirIv, Inl e) \<Rightarrow> (Inl e, [], w)
                         | (theirIv, Inr s3) \<Rightarrow>
                             (let s4 = trimPadding (size_opt options) s3;
                                  (plaintextHashState, s5) = peekAndUpdateHash createHash s4
                              in (case finalStreamCheck logId (integrity options) hmac digestState
                                         (Some theirMac) outer w of
                                    (Some e, w1) \<Rightarrow>
                                      (case pipeToSink sink s5 w1 of
                                         (sinkError, delivered, w2) \<Rightarrow> (Inl e, delivered, w2))
                                  | (None, w1) \<Rightarrow>
                                      (case pipeToSink sink s5 w1 of
                                         (Some e, delivered, w2) \<Rightarrow> (Inl e, delivered, w2)
                                       | (None, delivered, w2) \<Rightarrow>
                                           (Inr (theirIv, plaintextHashState), delivered, w2)))))))))"

definition decryptLogId :: "string \<Rightarrow> string" where
  "decryptLogId ident = ''decryptAttachmentV2('' @ ident @ '')''"

definition decryptAttachmentV2ToSink ::
  "platform \<Rightarrow> 'a DecryptAttachmentToSinkOptionsType_scheme \<Rightarrow> Writable \<Rightarrow> world
     \<Rightarrow> (error + DecryptedToSink) \<times> bytes \<times> world" where
  "decryptAttachmentV2ToSink pf options sink w =
     (case resolveKeys pf (decryptKeys options) of
        Inl e \<Rightarrow> (Inl e, [], w)
      | Inr ks \<Rightarrow>
          (let logId = decryptLogId (idForLogging options)
           in (case runDecryptPipeline pf logId options (aesKey ks) (macKey ks) sink w of
                 (Inl e, delivered, w1) \<Rightarrow>
                   if e = Aborted then (Inl e, delivered, w1)
                   else (Inl e, delivered,
                         log_error (logId @ '': Failed to decrypt attachment'') e w1)
               | (Inr (theirIv, plaintextHashState), delivered, w1) \<Rightarrow>
                   (let ourPlaintextHash = hash_digest_hex plaintextHashState
                    in if length ourPlaintextHash \<noteq> HEX_DIGEST_LENGTH
                       then (Inl Internal, delivered, w1)
                       else (case theirIv of
                               None \<Rightarrow> (Inl Internal, delivered, w1)
                             | Some v \<Rightarrow>
                                 if length v \<noteq> IV_LENGTH then (Inl Internal, delivered, w1)
                                 else (Inr \<lparr>d_iv = v, d_plaintextHash = ourPlaintextHash\<rparr>,
                                       delivered, w1))))))"

text \<open>The inner try of the two file-producing decryptors: \<open>ensureFile\<close>, then \<open>open(path, 'w')\<close>.\<close>

definition createWritePath :: "string \<Rightarrow> world \<Rightarrow> error + world" where
  "createWritePath absoluteTargetPath w =
     (case ensureFile absoluteTargetPath w of
        Inl cause \<Rightarrow> Inl IoOpen
      | Inr w1 \<Rightarrow>
          (case openForWrite absoluteTargetPath w1 of
             Inl cause \<Rightarrow> Inl IoOpen
           | Inr w2 \<Rightarrow> Inr w2))"

text \<open>Their catch block: log the error, unlink the output, throw the error again.\<close>

definition logUnlinkRethrow :: "string \<Rightarrow> error \<Rightarrow> string \<Rightarrow> world \<Rightarrow> error \<times> world" where
  "logUnlinkRethrow msg e absoluteTargetPath w =
     (case safeUnlinkSync absoluteTargetPath (log_error msg e w) of
        (Some unlinkError, w') \<Rightarrow> (unlinkError, w')
      | (None, w') \<Rightarrow> (e, w'))"

definition decryptAttachmentV2 ::
  "platform \<Rightarrow> 'a DecryptAttachmentOptionsType_scheme \<Rightarrow> string \<Rightarrow> world
     \<Rightarrow> (error + DecryptedAttachmentV2) \<times> world" where
  "decryptAttachmentV2 pf options relativeTargetPath w =
     (let logId = decryptLogId (idForLogging options);
          absoluteTargetPath = getAbsoluteAttachmentPath' options relativeTargetPath;
          failed = (\<lambda>e w'. (case logUnlinkRethrow (logId @ '': Failed to decrypt attachment to disk'')
                                    e absoluteTargetPath w' of
                               (thrown, w'') \<Rightarrow> (Inl thrown, w'')))
      in (case createWritePath absoluteTargetPath w of
            Inl e \<Rightarrow> failed e w
          | Inr w1 \<Rightarrow>
              (case decryptAttachmentV2ToSink pf options (FileSink absoluteTargetPath) w1 of
                 (Inl e, delivered, w2) \<Rightarrow> failed e w2
               | (Inr r, delivered, w2) \<Rightarrow>
                   (Inr \<lparr>d_iv = d_iv r, d_plaintextHash = d_plaintextHash r,
                         d_path = relativeTargetPath\<rparr>, w2))))"

section \<open>The re-encryptor\<close>




section \<open>What a run leaves in the log and of the permissions\<close>

text \<open>
  The entries logged at error level, and the relation of two worlds that differ at most
  in their files, their log and the random bytes drawn.
\<close>

fun isErrorEntry :: "log_entry \<Rightarrow> bool" where
  "isErrorEntry (LogError msg e) = True"
| "isErrorEntry (LogInfo msg) = False"

definition errorsLogged :: "world \<Rightarrow> log_entry list" where
  "errorsLogged w = filter isErrorEntry (logs w)"

definition samePermissions :: "world \<Rightarrow> world \<Rightarrow> bool" where
  "samePermissions w w' \<longleftrightarrow>
     readFault w' = readFault w \<and> createDenied w' = createDenied w
     \<and> unlinkDenied w' = unlinkDenied w"

section \<open>What is assumed of AES-256-CBC, and the frame of section 3\<close>

text \<open>
  Two facts about Node's cipher that the engine relies on and cannot check. With PKCS#7
  the ciphertext of \<open>n\<close> bytes has \<open>(n div 16 + 1) * 16\<close> bytes. Deciphering a ciphertext
  under the key and IV that made it gives the plaintext back, followed by nothing (the
  decipher strips the PKCS#7 bytes, as section 9 has it) or by those bytes (it leaves
  them, as item 6 of section 4.2 has it).
\<close>

definition cipherPadsToBlocks :: "platform \<Rightarrow> bool" where
  "cipherPadsToBlocks pf =
     (\<forall>k v m. length k = KEY_LENGTH \<longrightarrow> length v = IV_LENGTH \<longrightarrow>
        length (createCipheriv pf k v m) = getAesCbcCiphertextLength (length m))"

definition decipherRecovers :: "platform \<Rightarrow> bool" where
  "decipherRecovers pf =
     (\<forall>k v m. length k = KEY_LENGTH \<longrightarrow> length v = IV_LENGTH \<longrightarrow>
        (\<exists>rest. createDecipheriv pf k v (createCipheriv pf k v m) = Inr (m @ rest)))"

text \<open>
  The frame of section 3 for a plaintext, a combined key and an IV:
  the IV, the ciphertext of the padded plaintext, and the HMAC of the two.
\<close>

definition paddedPlaintext :: "platform \<Rightarrow> bool \<Rightarrow> bytes \<Rightarrow> bytes" where
  "paddedPlaintext pf skipPadding p =
     (if skipPadding then p else p @ replicate (logPadSize pf (length p) - length p) 0)"

definition frameBody :: "platform \<Rightarrow> bytes \<Rightarrow> bytes \<Rightarrow> bool \<Rightarrow> bytes \<Rightarrow> bytes" where
  "frameBody pf ks v skipPadding p =
     v @ createCipheriv pf (take 32 ks) v (paddedPlaintext pf skipPadding p)"

definition frame :: "platform \<Rightarrow> bytes \<Rightarrow> bytes \<Rightarrow> bool \<Rightarrow> bytes \<Rightarrow> bytes" where
  "frame pf ks v skipPadding p =
     frameBody pf ks v skipPadding p @ hmac_sha256 (drop 32 ks) (frameBody pf ks v skipPadding p)"

section \<open>A platform and a world to run the engine on\<close>

text \<open>
  A stand-in for the cipher that has the two properties above (PKCS#7 padding, then
  every byte XORed with a constant), a padding policy with a floor, an encoder that
  maps a byte to the character of the same code, and a world with no files and no
  faults.
\<close>

definition pkcs7 :: "bytes \<Rightarrow> bytes" where
  "pkcs7 m = m @ replicate (16 - length m mod 16) (word_of_nat (16 - length m mod 16))"

definition demoPlatform :: platform where
  "demoPlatform =
     \<lparr>createCipheriv = (\<lambda>k v m. map (\<lambda>b. b XOR 0x5a) (pkcs7 m)),
      createDecipheriv = (\<lambda>k v c. Inr (map (\<lambda>b. b XOR 0x5a) c)),
      logPadSize = (\<lambda>n. max 541 n),
      fromBase64 = map (\<lambda>c. word_of_nat (of_char c)),
      toBase64 = map (\<lambda>b. char_of (unat b)),
      isTestEnvironment = True\<rparr>"

definition emptyWorld :: world where
  "emptyWorld =
     \<lparr>files = (\<lambda>p. None), readFault = (\<lambda>p. None), createDenied = (\<lambda>p. False),
      unlinkDenied = (\<lambda>p. False), entropy = (\<lambda>i. 0), drawn = 0, logs = []\<rparr>"

text \<open>
  Calls of the encryptor: bytes in memory under the all-zero key; scenario S1 of
  section 8 (the empty plaintext, the all-zero key, the IV forced to zero); a
  re-encryption for backup with a digest to match. \<open>productionPlatform\<close> is the same
  platform outside a test environment.
\<close>

definition demoProps :: "bytes \<Rightarrow> EncryptAttachmentV2PropsType" where
  "demoProps d = \<lparr>plaintext = Data d, keys = replicate 64 0, dangerousIv = None,
      dangerousTestOnlySkipPadding = False, getAbsoluteAttachmentPath = (\<lambda>p. ''/attachments/'' @ p)\<rparr>"

definition scenarioS1 :: "bool \<Rightarrow> EncryptAttachmentV2PropsType" where
  "scenarioS1 skipPadding =
     \<lparr>plaintext = Data [], keys = replicate 64 0,
      dangerousIv = Some (TestIv (replicate 16 0)),
      dangerousTestOnlySkipPadding = skipPadding,
      getAbsoluteAttachmentPath = (\<lambda>p. ''/attachments/'' @ p)\<rparr>"

definition backupProps :: "bytes \<Rightarrow> bool \<Rightarrow> bytes \<Rightarrow> EncryptAttachmentV2PropsType" where
  "backupProps p skipPadding d =
     \<lparr>plaintext = Data p, keys = replicate 64 0,
      dangerousIv = Some (ReencryptingForBackup (replicate 16 0) d),
      dangerousTestOnlySkipPadding = skipPadding,
      getAbsoluteAttachmentPath = (\<lambda>p. ''/attachments/'' @ p)\<rparr>"

definition demoDigest :: bytes where
  "demoDigest = sha256 (frame demoPlatform (replicate 64 0) (replicate 16 0) False [1, 2, 3])"

definition productionPlatform :: platform where
  "productionPlatform = demoPlatform\<lparr>isTestEnvironment := False\<rparr>"

text \<open>
  A byte string with its first byte changed, and a call of the decryptor on the file
  that \<open>encryptAttachmentV2ToDisk\<close> writes under the name \<open>out\<close>.
\<close>

definition tamper :: "bytes \<Rightarrow> bytes" where
  "tamper bs = (case bs of [] \<Rightarrow> [] | b # rest \<Rightarrow> (b + 1) # rest)"

definition demoOptions :: "IntegrityType \<Rightarrow> DecryptAttachmentToSinkOptionsType" where
  "demoOptions ty =
     \<lparr>ciphertextPath = ''/attachments/out'', idForLogging = ''demo'', size_opt = 3,
      outerEncryption = None, integrity = ty,
      decryptKeys = AesMacKeys (replicate 32 0) (replicate 32 0)\<rparr>"

text \<open>
  Calls of the file-producing decryptors, and worlds with faults: a ciphertext whose
  read stream is aborted, a ciphertext of no bytes, an operating system that refuses
  every unlink, and a plaintext stream that fails.
\<close>

definition diskOptions :: "string \<Rightarrow> IntegrityType \<Rightarrow> DecryptAttachmentOptionsType" where
  "diskOptions cpath ty =
     \<lparr>ciphertextPath = cpath, idForLogging = ''demo'', size_opt = 3,
      outerEncryption = None, integrity = ty,
      decryptKeys = AesMacKeys (replicate 32 0) (replicate 32 0),
      getAbsoluteAttachmentPath' = (\<lambda>p. ''/attachments/'' @ p)\<rparr>"

definition abortingWorld :: world where
  "abortingWorld =
     emptyWorld\<lparr>files := (\<lambda>p. if p = ''/c'' then Some [] else None),
                readFault := (\<lambda>p. if p = ''/c'' then Some Aborted else None)\<rparr>"





section \<open>Facts about the primitives\<close>

lemmas lengths = IV_LENGTH_def KEY_LENGTH_def MAC_LENGTH_def DIGEST_LENGTH_def
  HEX_DIGEST_LENGTH_def ATTACHMENT_MAC_LENGTH_def KEY_SET_LENGTH_def

lemma length_sha256_round: "length (sha256_round s kw) = length s"
  by (induction s kw rule: sha256_round.induct) (simp_all add: Let_def)

lemma length_foldl_round: "length (foldl sha256_round s xs) = length s"
  by (induction xs arbitrary: s) (simp_all add: length_sha256_round)

lemma length_sha256_block: "length (sha256_block hs blk) = length hs"
  by (simp add: sha256_block_def Let_def length_foldl_round)

lemma length_foldl_block: "length (foldl sha256_block hs bs) = length hs"
  by (induction bs arbitrary: hs) (simp_all add: length_sha256_block)

lemma length_concat_u32: "length (concat (map u32_bytes ws)) = 4 * length ws"
  by (induction ws) (simp_all add: u32_bytes_def)

lemma length_sha256: "length (sha256 m) = 32"
  by (simp add: sha256_def Let_def length_concat_u32 length_foldl_block sha256_init_def)

lemma length_hmac_sha256: "length (hmac_sha256 k m) = 32"
  by (simp add: hmac_sha256_def Let_def length_sha256)

lemma length_toHex: "length (toHex bs) = 2 * length bs"
  by (induction bs) (simp_all add: toHex_def)

lemma length_hash_digest: "length (hash_digest h) = 32"
  by (simp add: hash_digest_def length_sha256)

lemma length_hash_digest_hex: "length (hash_digest_hex h) = 64"
  by (simp add: hash_digest_hex_def length_toHex length_sha256)

lemma length_hmac_digest: "length (hmac_digest h) = 32"
  by (simp add: hmac_digest_def length_hmac_sha256)

lemma splitKeys_wrong: "length k \<noteq> 64 \<Longrightarrow> splitKeys k = Inl InvalidKeyLength"
  by (simp add: splitKeys_def lengths)

lemma splitKeys_right:
  "length k = 64 \<Longrightarrow> splitKeys k = Inr \<lparr>aesKey = take 32 k, macKey = drop 32 k\<rparr>"
  by (simp add: splitKeys_def lengths subarray_def)

section \<open>C5: splitting the combined key\<close>

text \<open>
  C5. \<open>splitKeys k\<close> fails with \<open>InvalidKeyLength\<close> for every \<open>k\<close> whose length is not 64;
  for every \<open>k\<close> of 64 bytes it returns the first 32 bytes as \<open>aesKey\<close> and the last 32 as
  \<open>macKey\<close>, and the two halves concatenated are \<open>k\<close>.
\<close>

theorem splitKeys_spec:
  "(length k \<noteq> 64 \<longrightarrow> splitKeys k = Inl InvalidKeyLength) \<and>
   (length k = 64 \<longrightarrow>
      (\<exists>ks. splitKeys k = Inr ks \<and> aesKey ks = take 32 k \<and> macKey ks = drop 32 k
            \<and> length (aesKey ks) = 32 \<and> length (macKey ks) = 32 \<and> aesKey ks @ macKey ks = k))"
  by (simp add: splitKeys_def lengths subarray_def)

theorem splitKeys_spec_witness:
  "splitKeys (replicate 64 7) = Inr \<lparr>aesKey = replicate 32 7, macKey = replicate 32 7\<rparr> \<and>
   splitKeys [1, 2, 3] = Inl InvalidKeyLength"
  using splitKeys_spec [of "replicate 64 7"] splitKeys_spec [of "[1, 2, 3]"]
  by auto

section \<open>The encryptor, step by step\<close>

lemma readSource_Data: "readSource (Data d) w = Inr d" by simp

lemma runEncryptPipeline_bad_iv:
  "length v \<noteq> 16 \<Longrightarrow>
   runEncryptPipeline pf a m v src skip sink w = (Inl InvalidIvLength, [], abandonOptSink sink w)"
  by (simp add: runEncryptPipeline_def prependIv_def lengths)

lemma runEncryptPipeline_bad_source:
  "length v = 16 \<Longrightarrow> readSource src w = Inl e \<Longrightarrow>
   runEncryptPipeline pf a m v src skip sink w = (Inl e, [], abandonOptSink sink w)"
  by (simp add: runEncryptPipeline_def prependIv_def lengths)

lemma runEncryptPipeline_frame:
  "length v = 16 \<Longrightarrow> readSource src w = Inr p \<Longrightarrow>
   runEncryptPipeline pf (take 32 ks) (drop 32 ks) v src skip sink w =
     (case sinkOrDiscard sink (frame pf ks v skip p) w of
        (Some e, delivered, w') \<Rightarrow> (Inl e, delivered, w')
      | (None, delivered, w') \<Rightarrow>
          (Inr (p, frame pf ks v skip p, Some (length (frame pf ks v skip p)),
                Some (hmac_sha256 (drop 32 ks) (frameBody pf ks v skip p))), delivered, w'))"
  by (simp add: runEncryptPipeline_def prependIv_def lengths peekAndUpdateHash_def
      createHash_def hash_update_def appendPaddingStream_def prependStream_def
      appendMacStream_def createHmac_def hmac_update_def hmac_digest_def measureSize_def
      frame_def frameBody_def paddedPlaintext_def Let_def
      split: prod.split option.split)

lemma finishEncrypt_captured:
  "finishEncrypt d v (ph, dg, Some n, Some m) =
     (if (case d of Some (ReencryptingForBackup x digestToMatch) \<Rightarrow> sha256 dg \<noteq> digestToMatch
                  | _ \<Rightarrow> False)
      then Inl ReencryptedDigestMismatch
      else Inr \<lparr>digest = sha256 dg, iv = v, plaintextHash = toHex (sha256 ph),
                ciphertextSize = n\<rparr>)"
  by (simp add: finishEncrypt_def Let_def length_sha256 length_toHex lengths
      constantTimeEqual_def hash_digest_def hash_digest_hex_def
      split: option.splits HardcodedIVForEncryptionType.splits)

lemma length_randomBytes: "length (fst (randomBytes n w)) = n"
  by (simp add: randomBytes_def)

lemma files_randomBytes [simp]:
  "files (snd (randomBytes n w)) = files w"
  "readFault (snd (randomBytes n w)) = readFault w"
  "createDenied (snd (randomBytes n w)) = createDenied w"
  "unlinkDenied (snd (randomBytes n w)) = unlinkDenied w"
  "logs (snd (randomBytes n w)) = logs w"
  by (simp_all add: randomBytes_def)

lemma log_fields [simp]:
  "files (log_info msg w) = files w"
  "readFault (log_info msg w) = readFault w"
  "createDenied (log_info msg w) = createDenied w"
  "unlinkDenied (log_info msg w) = unlinkDenied w"
  "files (log_error msg e w) = files w"
  "readFault (log_error msg e w) = readFault w"
  "createDenied (log_error msg e w) = createDenied w"
  "unlinkDenied (log_error msg e w) = unlinkDenied w"
  "logs (log_info msg w) = logs w @ [LogInfo msg]"
  "logs (log_error msg e w) = logs w @ [LogError msg e]"
  by (simp_all add: log_info_def log_error_def)

text \<open>With a key of 64 bytes, the encryptor is its guards, its pipeline and its last checks.\<close>

lemma encryptAttachmentV2_valid_key:
  assumes "length (keys props) = 64"
  shows "encryptAttachmentV2 pf props sink w =
     (case checkDangerousIv pf (dangerousIv props) w of
        Inl e \<Rightarrow> (Inl e, [], w)
      | Inr w1 \<Rightarrow>
          if dangerousTestOnlySkipPadding props \<and> \<not> isTestEnvironment pf
          then (Inl TestOnlyFeatureUsed, [], w1)
          else (case chooseIv (dangerousIv props) w1 of (v, w2) \<Rightarrow>
            (case runEncryptPipeline pf (take 32 (keys props)) (drop 32 (keys props)) v
                    (plaintext props) (dangerousTestOnlySkipPadding props) sink w2 of
               (Inl e, delivered, w3) \<Rightarrow>
                 (Inl e, delivered,
                  log_error ''encryptAttachmentV2: Failed to encrypt attachment'' e w3)
             | (Inr captured, delivered, w3) \<Rightarrow>
                 (finishEncrypt (dangerousIv props) v captured, delivered, w3))))"
  unfolding encryptAttachmentV2_def splitKeys_right [OF assms]
  by (simp cong: sum.case_cong prod.case_cong if_cong)

lemma encryptAttachmentV2_invalid_key:
  "length (keys props) \<noteq> 64 \<Longrightarrow> encryptAttachmentV2 pf props sink w = (Inl InvalidKeyLength, [], w)"
  by (simp add: encryptAttachmentV2_def splitKeys_wrong)

text \<open>What a successful encryption returns.\<close>

lemma encryptAttachmentV2_Inr:
  assumes "encryptAttachmentV2 pf props sink w = (Inr r, delivered, w')"
  shows "\<exists>w1 w2 p.
      length (keys props) = 64 \<and> length (iv r) = 16
    \<and> checkDangerousIv pf (dangerousIv props) w = Inr w1
    \<and> chooseIv (dangerousIv props) w1 = (iv r, w2)
    \<and> readSource (plaintext props) w2 = Inr p
    \<and> sinkOrDiscard sink (frame pf (keys props) (iv r) (dangerousTestOnlySkipPadding props) p) w2
        = (None, delivered, w')
    \<and> digest r = sha256 (frame pf (keys props) (iv r) (dangerousTestOnlySkipPadding props) p)
    \<and> plaintextHash r = toHex (sha256 p)
    \<and> ciphertextSize r
        = length (frame pf (keys props) (iv r) (dangerousTestOnlySkipPadding props) p)
    \<and> (dangerousTestOnlySkipPadding props \<longrightarrow> isTestEnvironment pf)"
proof -
  have K: "length (keys props) = 64"
    using assms by (cases "length (keys props) = 64") (simp_all add: encryptAttachmentV2_invalid_key)
  obtain w1 where w1: "checkDangerousIv pf (dangerousIv props) w = Inr w1"
    using assms by (cases "checkDangerousIv pf (dangerousIv props) w")
      (simp_all add: encryptAttachmentV2_valid_key [OF K])
  have guard: "dangerousTestOnlySkipPadding props \<longrightarrow> isTestEnvironment pf"
    using assms w1 by (auto simp: encryptAttachmentV2_valid_key [OF K] split: if_splits)
  obtain v w2 where v: "chooseIv (dangerousIv props) w1 = (v, w2)"
    by (cases "chooseIv (dangerousIv props) w1")
  let ?run = "runEncryptPipeline pf (take 32 (keys props)) (drop 32 (keys props)) v
                 (plaintext props) (dangerousTestOnlySkipPadding props) sink w2"
  have step: "(case ?run of
       (Inl e, dl, w3) \<Rightarrow> (Inl e, dl, log_error ''encryptAttachmentV2: Failed to encrypt attachment'' e w3)
     | (Inr captured, dl, w3) \<Rightarrow> (finishEncrypt (dangerousIv props) v captured, dl, w3))
     = (Inr r, delivered, w')"
    using assms w1 v guard by (auto simp: encryptAttachmentV2_valid_key [OF K])
  have lv: "length v = 16"
    using step by (cases "length v = 16") (simp_all add: runEncryptPipeline_bad_iv)
  obtain p where p: "readSource (plaintext props) w2 = Inr p"
    using step lv by (cases "readSource (plaintext props) w2")
      (simp_all add: runEncryptPipeline_bad_source)
  let ?f = "frame pf (keys props) v (dangerousTestOnlySkipPadding props) p"
  from step have sink: "sinkOrDiscard sink ?f w2 = (None, delivered, w')"
    and fin: "finishEncrypt (dangerousIv props) v
        (p, ?f, Some (length ?f),
         Some (hmac_sha256 (drop 32 (keys props))
            (frameBody pf (keys props) v (dangerousTestOnlySkipPadding props) p))) = Inr r"
    by (auto simp: runEncryptPipeline_frame [OF lv p] split: prod.splits option.splits)
  from fin have r: "r = \<lparr>digest = sha256 ?f, iv = v, plaintextHash = toHex (sha256 p),
                         ciphertextSize = length ?f\<rparr>"
    by (simp add: finishEncrypt_captured split: if_splits)
  show ?thesis
    using K w1 v p sink guard lv by (simp add: r)
qed

section \<open>The stand-in cipher, and what a successful encryption returns\<close>

lemma demo_cipherPadsToBlocks: "cipherPadsToBlocks demoPlatform"
proof -
  have "n + (16 - n mod 16) = (1 + n div 16) * 16" for n :: nat
    by presburger
  then show ?thesis
    by (simp add: cipherPadsToBlocks_def demoPlatform_def pkcs7_def getAesCbcCiphertextLength_def)
qed

lemma xor_twice: "map (\<lambda>b. b XOR c) (map (\<lambda>b. b XOR c) xs) = (xs :: bytes)"
  by (induction xs) (simp_all add: xor.assoc)

lemma demo_decipherRecovers: "decipherRecovers demoPlatform"
  unfolding decipherRecovers_def demoPlatform_def pkcs7_def
  by (auto simp: xor_twice simp del: map_append map_map)


lemma length_frame:
  assumes "cipherPadsToBlocks pf" "length ks = 64" "length v = 16"
  shows "length (frame pf ks v skip p)
       = 16 + getAesCbcCiphertextLength (length (paddedPlaintext pf skip p)) + 32"
proof -
  have "length (createCipheriv pf (take 32 ks) v (paddedPlaintext pf skip p))
      = getAesCbcCiphertextLength (length (paddedPlaintext pf skip p))"
    using assms by (simp add: cipherPadsToBlocks_def lengths)
  then show ?thesis
    using assms by (simp add: frame_def frameBody_def length_hmac_sha256)
qed

text \<open>The result of encrypting bytes in memory under a forced test IV, with no sink.\<close>

lemma encryptAttachmentV2_test_iv:
  assumes "length (keys props) = 64" "isTestEnvironment pf" "length v = 16"
    and "plaintext props = Data p" "dangerousIv props = Some (TestIv v)"
  shows "encryptAttachmentV2 pf props None w =
     (Inr \<lparr>digest = sha256 (frame pf (keys props) v (dangerousTestOnlySkipPadding props) p),
           iv = v, plaintextHash = toHex (sha256 p),
           ciphertextSize = length (frame pf (keys props) v (dangerousTestOnlySkipPadding props) p)\<rparr>,
      [], w)"
  using assms
  by (simp add: encryptAttachmentV2_valid_key checkDangerousIv_def chooseIv_def
      runEncryptPipeline_frame finishEncrypt_captured)

text \<open>The same with the IV drawn at random.\<close>

lemma encryptAttachmentV2_random_iv:
  assumes "length (keys props) = 64" "dangerousTestOnlySkipPadding props \<longrightarrow> isTestEnvironment pf"
    and "plaintext props = Data p" "dangerousIv props = None"
  shows "encryptAttachmentV2 pf props None w =
     (let v = fst (randomBytes 16 w)
      in (Inr \<lparr>digest = sha256 (frame pf (keys props) v (dangerousTestOnlySkipPadding props) p),
            iv = v, plaintextHash = toHex (sha256 p),
            ciphertextSize = length (frame pf (keys props) v (dangerousTestOnlySkipPadding props) p)\<rparr>,
          [], snd (randomBytes 16 w)))"
proof -
  obtain v w2 where r: "randomBytes 16 w = (v, w2)"
    by (cases "randomBytes 16 w")
  then have lv: "length v = 16"
    using length_randomBytes [of 16 w] by simp
  show ?thesis
    using assms r lv
    by (auto simp: encryptAttachmentV2_valid_key checkDangerousIv_def chooseIv_def
        generateAttachmentIv_def lengths runEncryptPipeline_frame finishEncrypt_captured)
qed

section \<open>C10: the standalone hash and the encryptor's plaintext hash\<close>

text \<open>
  C10. For every byte array \<open>d\<close>, whenever \<open>encryptAttachmentV2\<close> on the plaintext
  \<open>{data: d}\<close> returns a record, with any sink, key, IV option and padding policy, its
  \<open>plaintextHash\<close> is \<open>getPlaintextHashForInMemoryAttachment d\<close>; both are the lowercase
  hexadecimal SHA-256 of \<open>d\<close>; and with a key of 64 bytes, no forced IV and no sink it does
  return a record.
\<close>

theorem plaintextHash_agrees:
  assumes "plaintext props = Data d"
  shows "(\<forall>r delivered w'. encryptAttachmentV2 pf props sink w = (Inr r, delivered, w')
            \<longrightarrow> plaintextHash r = getPlaintextHashForInMemoryAttachment d)
       \<and> getPlaintextHashForInMemoryAttachment d = toHex (sha256 d)
       \<and> (length (keys props) = 64 \<and> dangerousIv props = None
            \<and> (dangerousTestOnlySkipPadding props \<longrightarrow> isTestEnvironment pf)
          \<longrightarrow> (\<exists>r w'. encryptAttachmentV2 pf props None w = (Inr r, [], w')))"
proof (intro conjI allI impI)
  show h: "getPlaintextHashForInMemoryAttachment d = toHex (sha256 d)"
    by (simp add: getPlaintextHashForInMemoryAttachment_def hash_digest_hex_def
        hash_update_def createHash_def)
  fix r delivered w'
  assume "encryptAttachmentV2 pf props sink w = (Inr r, delivered, w')"
  from encryptAttachmentV2_Inr [OF this] assms
  show "plaintextHash r = getPlaintextHashForInMemoryAttachment d"
    by (auto simp: h)
next
  assume "length (keys props) = 64 \<and> dangerousIv props = None
            \<and> (dangerousTestOnlySkipPadding props \<longrightarrow> isTestEnvironment pf)"
  then show "\<exists>r w'. encryptAttachmentV2 pf props None w = (Inr r, [], w')"
    using assms by (simp add: encryptAttachmentV2_random_iv Let_def)
qed

theorem plaintextHash_agrees_witness:
  "map_sum id plaintextHash (fst (encryptAttachmentV2 demoPlatform (demoProps [1, 2, 3]) None emptyWorld))
     = Inr (getPlaintextHashForInMemoryAttachment [1, 2, 3])"
proof -
  have d: "plaintext (demoProps [1, 2, 3]) = Data [1, 2, 3]"
    by (simp add: demoProps_def)
  have k: "length (keys (demoProps [1, 2, 3])) = 64 \<and> dangerousIv (demoProps [1, 2, 3]) = None
       \<and> (dangerousTestOnlySkipPadding (demoProps [1, 2, 3]) \<longrightarrow> isTestEnvironment demoPlatform)"
    by (simp add: demoProps_def)
  from plaintextHash_agrees [OF d, of demoPlatform None emptyWorld] k
  obtain r w' where "encryptAttachmentV2 demoPlatform (demoProps [1, 2, 3]) None emptyWorld = (Inr r, [], w')"
     and "plaintextHash r = getPlaintextHashForInMemoryAttachment [1, 2, 3]"
    by blast
  then show ?thesis by simp
qed

lemma sha256_empty:
  "toHex (sha256 []) = ''e3b0c44298fc1c149afbf4c8996fb92427ae41e4649b934ca495991b7852b855''"
  by code_simp



section \<open>C4: the size of the ciphertext\<close>



section \<open>C9: scenario S1, the empty plaintext\<close>

text \<open>
  As stated, C9 gives 64 bytes for the empty plaintext whatever the padding policy.
  With a policy that pads the empty plaintext to 541 bytes the encryptor returns 592.
\<close>

theorem empty_plaintext_padded_counterexample:
  "map_sum id ciphertextSize
     (fst (encryptAttachmentV2 demoPlatform (scenarioS1 False) None emptyWorld)) = Inr 592"
proof -
  have "length (frame demoPlatform (replicate 64 0) (replicate 16 0) False []) = 592"
    using length_frame [OF demo_cipherPadsToBlocks, of "replicate 64 0" "replicate 16 0" False "[]"]
    by (simp add: paddedPlaintext_def getAesCbcCiphertextLength_def) (simp add: demoPlatform_def)
  moreover have "isTestEnvironment demoPlatform"
    by (simp add: demoPlatform_def)
  ultimately show ?thesis
    using encryptAttachmentV2_test_iv
      [of "scenarioS1 False" demoPlatform "replicate 16 0" "[]" emptyWorld]
    by (simp add: scenarioS1_def)
qed

text \<open>
  C9, amended. Encrypting the empty plaintext under the all-zero key of 64 bytes and the
  forced all-zero IV, in a test environment, succeeds with the plaintext hash
  \<open>e3b0c442...7852b855\<close>; the ciphertext size is 64 when padding is skipped, and
  \<open>16 + (logPadSize 0 div 16 + 1) * 16 + 32\<close> otherwise, which is 64 exactly when the
  policy pads the empty plaintext to fewer than 16 bytes.
\<close>

theorem empty_plaintext_scenario:
  assumes "cipherPadsToBlocks pf" "isTestEnvironment pf"
    and "plaintext props = Data []" "keys props = replicate 64 0"
    and "dangerousIv props = Some (TestIv (replicate 16 0))"
  shows "\<exists>r. encryptAttachmentV2 pf props None w = (Inr r, [], w)
      \<and> plaintextHash r = ''e3b0c44298fc1c149afbf4c8996fb92427ae41e4649b934ca495991b7852b855''
      \<and> ciphertextSize r = (if dangerousTestOnlySkipPadding props then 64
                            else 16 + (logPadSize pf 0 div 16 + 1) * 16 + 32)
      \<and> (logPadSize pf 0 < 16 \<longrightarrow> ciphertextSize r = 64)"
proof -
  let ?skip = "dangerousTestOnlySkipPadding props"
  have len: "length (frame pf (replicate 64 0) (replicate 16 0) ?skip [])
      = (if ?skip then 64 else 16 + (logPadSize pf 0 div 16 + 1) * 16 + 32)"
    using length_frame [OF assms(1), of "replicate 64 0" "replicate 16 0" ?skip "[]"]
    by (simp add: paddedPlaintext_def getAesCbcCiphertextLength_def)
  have "encryptAttachmentV2 pf props None w =
     (Inr \<lparr>digest = sha256 (frame pf (replicate 64 0) (replicate 16 0) ?skip []),
           iv = replicate 16 0, plaintextHash = toHex (sha256 []),
           ciphertextSize = length (frame pf (replicate 64 0) (replicate 16 0) ?skip [])\<rparr>,
      [], w)"
    using encryptAttachmentV2_test_iv [of props pf "replicate 16 0" "[]" w] assms by simp
  then show ?thesis
    by (simp add: len sha256_empty)
qed

theorem empty_plaintext_scenario_witness:
  "map_sum id plaintextHash
     (fst (encryptAttachmentV2 demoPlatform (scenarioS1 True) None emptyWorld))
     = Inr ''e3b0c44298fc1c149afbf4c8996fb92427ae41e4649b934ca495991b7852b855''
   \<and> map_sum id ciphertextSize
     (fst (encryptAttachmentV2 demoPlatform (scenarioS1 True) None emptyWorld)) = Inr 64"
proof -
  have "isTestEnvironment demoPlatform"
    by (simp add: demoPlatform_def)
  from empty_plaintext_scenario [OF demo_cipherPadsToBlocks this, of "scenarioS1 True" emptyWorld]
  obtain r where "encryptAttachmentV2 demoPlatform (scenarioS1 True) None emptyWorld = (Inr r, [], emptyWorld)"
    and "plaintextHash r = ''e3b0c44298fc1c149afbf4c8996fb92427ae41e4649b934ca495991b7852b855''"
    and "ciphertextSize r = 64"
    by (auto simp: scenarioS1_def)
  then show ?thesis
    by simp
qed

lemma readSource_log [simp]:
  "readSource src (log_info msg w) = readSource src w"
  by (cases src) (simp_all add: readFileStream_def split: option.splits)

lemma fst_sinkOrDiscard_log [simp]:
  "fst (sinkOrDiscard sink out (log_info msg w)) = fst (sinkOrDiscard sink out w)"
proof (cases sink)
  case None
  then show ?thesis by simp
next
  case (Some s)
  then show ?thesis by (cases s) simp_all
qed



lemma frame_isTestEnvironment [simp]:
  "frame (pf\<lparr>isTestEnvironment := b\<rparr>) ks v skip p = frame pf ks v skip p"
  "frameBody (pf\<lparr>isTestEnvironment := b\<rparr>) ks v skip p = frameBody pf ks v skip p"
  by (simp_all add: frame_def frameBody_def paddedPlaintext_def)

lemma runEncryptPipeline_isTestEnvironment [simp]:
  "runEncryptPipeline (pf\<lparr>isTestEnvironment := b\<rparr>) a m v src skip sink w
     = runEncryptPipeline pf a m v src skip sink w"
  by (simp add: runEncryptPipeline_def appendPaddingStream_def
      cong: sum.case_cong prod.case_cong if_cong)


section \<open>C3: re-encrypting for backup\<close>




section \<open>C7: the test-only guards\<close>

text \<open>
  As stated, C7 promises \<open>TestOnlyFeatureUsed\<close> whenever the padding is skipped outside
  a test environment. The guard on \<open>digestToMatch\<close> comes first: with a digest to match
  that is not 32 bytes long the call fails with \<open>InvalidDigestLength\<close>.
\<close>

theorem test_only_guard_counterexample:
  "fst (encryptAttachmentV2 productionPlatform (backupProps [] True []) None emptyWorld)
     = Inl InvalidDigestLength"
  by (simp add: encryptAttachmentV2_valid_key backupProps_def checkDangerousIv_def lengths)

text \<open>
  C7, amended. With a key of 64 bytes and outside a test environment, the encryptor
  fails with \<open>TestOnlyFeatureUsed\<close> before it runs the pipeline whenever \<open>dangerousIv\<close> has
  reason \<open>test\<close>, and whenever \<open>dangerousTestOnlySkipPadding\<close> is set and \<open>dangerousIv\<close>
  is not a re-encryption for backup whose \<open>digestToMatch\<close> has the wrong length. In a
  test environment a forced test IV of 16 bytes is accepted, with or without padding.
\<close>

theorem test_only_guard:
  assumes "length (keys props) = 64"
  shows "(\<not> isTestEnvironment pf \<longrightarrow>
            (\<forall>v. dangerousIv props = Some (TestIv v) \<longrightarrow>
                 encryptAttachmentV2 pf props sink w = (Inl TestOnlyFeatureUsed, [], w))
          \<and> (dangerousTestOnlySkipPadding props
              \<and> (\<forall>v d. dangerousIv props = Some (ReencryptingForBackup v d) \<longrightarrow> length d = 32)
              \<longrightarrow> fst (encryptAttachmentV2 pf props sink w) = Inl TestOnlyFeatureUsed
                \<and> fst (snd (encryptAttachmentV2 pf props sink w)) = []
                \<and> files (snd (snd (encryptAttachmentV2 pf props sink w))) = files w))
       \<and> (isTestEnvironment pf \<longrightarrow>
            (\<forall>v p. dangerousIv props = Some (TestIv v) \<and> length v = 16 \<and> plaintext props = Data p
                \<longrightarrow> (\<exists>r. encryptAttachmentV2 pf props None w = (Inr r, [], w) \<and> iv r = v
                        \<and> ciphertextSize r = length (frame pf (keys props) v
                              (dangerousTestOnlySkipPadding props) p))))"
proof (intro conjI impI allI)
  fix v
  assume "\<not> isTestEnvironment pf" "dangerousIv props = Some (TestIv v)"
  then show "encryptAttachmentV2 pf props sink w = (Inl TestOnlyFeatureUsed, [], w)"
    using assms by (simp add: encryptAttachmentV2_valid_key checkDangerousIv_def)
next
  assume env: "\<not> isTestEnvironment pf"
    and skip: "dangerousTestOnlySkipPadding props
      \<and> (\<forall>v d. dangerousIv props = Some (ReencryptingForBackup v d) \<longrightarrow> length d = 32)"
  have "encryptAttachmentV2 pf props sink w = (Inl TestOnlyFeatureUsed, [], w)
      \<or> (\<exists>msg. encryptAttachmentV2 pf props sink w = (Inl TestOnlyFeatureUsed, [], log_info msg w))"
    using assms env skip
    by (auto simp: encryptAttachmentV2_valid_key checkDangerousIv_def lengths
        split: option.splits HardcodedIVForEncryptionType.splits)
  then show "fst (encryptAttachmentV2 pf props sink w) = Inl TestOnlyFeatureUsed"
    and "fst (snd (encryptAttachmentV2 pf props sink w)) = []"
    and "files (snd (snd (encryptAttachmentV2 pf props sink w))) = files w"
    by auto
next
  fix v p
  assume "isTestEnvironment pf"
    "dangerousIv props = Some (TestIv v) \<and> length v = 16 \<and> plaintext props = Data p"
  then show "\<exists>r. encryptAttachmentV2 pf props None w = (Inr r, [], w) \<and> iv r = v
      \<and> ciphertextSize r = length (frame pf (keys props) v (dangerousTestOnlySkipPadding props) p)"
    using encryptAttachmentV2_test_iv [of props pf v p w] assms by simp
qed

theorem test_only_guard_witness:
  "encryptAttachmentV2 productionPlatform (scenarioS1 False) None emptyWorld
     = (Inl TestOnlyFeatureUsed, [], emptyWorld)
   \<and> fst (encryptAttachmentV2 productionPlatform (demoProps [1, 2, 3]\<lparr>dangerousTestOnlySkipPadding := True\<rparr>)
            None emptyWorld) = Inl TestOnlyFeatureUsed
   \<and> map_sum id iv (fst (encryptAttachmentV2 demoPlatform (scenarioS1 True) None emptyWorld))
     = Inr (replicate 16 0)"
proof -
  have a: "encryptAttachmentV2 productionPlatform (scenarioS1 False) None emptyWorld
     = (Inl TestOnlyFeatureUsed, [], emptyWorld)"
    using test_only_guard [of "scenarioS1 False" productionPlatform None emptyWorld]
    by (simp add: scenarioS1_def productionPlatform_def demoPlatform_def)
  have b: "fst (encryptAttachmentV2 productionPlatform
        (demoProps [1, 2, 3]\<lparr>dangerousTestOnlySkipPadding := True\<rparr>) None emptyWorld)
      = Inl TestOnlyFeatureUsed"
    using test_only_guard [of "demoProps [1, 2, 3]\<lparr>dangerousTestOnlySkipPadding := True\<rparr>"
        productionPlatform None emptyWorld]
    by (simp add: demoProps_def productionPlatform_def demoPlatform_def)
  have c: "map_sum id iv (fst (encryptAttachmentV2 demoPlatform (scenarioS1 True) None emptyWorld))
     = Inr (replicate 16 0)"
    using test_only_guard [of "scenarioS1 True" demoPlatform None emptyWorld]
    by (auto simp: scenarioS1_def demoPlatform_def)
  show ?thesis
    using a b c by simp
qed

section \<open>C2: the order of the integrity checks\<close>


lemma length_tamper [simp]: "length (tamper bs) = length bs"
  by (cases bs) (simp_all add: tamper_def)


text \<open>The callback of \<open>finalStream\<close> once the three asserts on lengths have passed.\<close>

lemma finalStreamCheck_asserted:
  assumes "length tm = 32"
  shows "finalStreamCheck logId ty hmac dg (Some tm) outer w =
     (if hmac_digest hmac \<noteq> tm then (Some BadMac, w)
      else (case checkIntegrityType logId ty (hash_digest dg) w of
              (Some e, w1) \<Rightarrow> (Some e, w1)
            | (None, w1) \<Rightarrow>
                (case outer of
                   None \<Rightarrow> (None, w1)
                 | Some (outerHmac, None) \<Rightarrow> (Some Internal, w1)
                 | Some (outerHmac, Some tom) \<Rightarrow>
                     if length tom \<noteq> 32 then (Some Internal, w1)
                     else if hmac_digest outerHmac \<noteq> tom then (Some BadOuterMac, w1)
                     else (None, w1))))"
  using assms
  by (simp add: finalStreamCheck_def Let_def length_hmac_digest length_hash_digest lengths
      constantTimeEqual_def split: prod.splits option.splits)

lemma checkIntegrityType_cases:
  "checkIntegrityType logId ty d w =
     (case ty of
        Standard theirDigest \<Rightarrow> (if d \<noteq> theirDigest then (Some BadDigest, w) else (None, w))
      | Local \<Rightarrow> (None, log_info (logId @ '': skipping digest check since this is a local attachment'') w)
      | BackupThumbnail \<Rightarrow>
          (None, log_info (logId @ '': skipping digest check since this is a backupThumbnail attachment'') w))"
  by (cases ty) (simp_all add: constantTimeEqual_def)





section \<open>C1: decrypting what was encrypted\<close>

lemma getMacAndUpdateHmac_split:
  "length mac = 32 \<Longrightarrow>
   getMacAndUpdateHmac h (body @ mac) = Inr (body, hmac_update h body, mac)"
  by (simp add: getMacAndUpdateHmac_def lengths Let_def)

lemma getIvAndDecipher_split:
  "length v = 16 \<Longrightarrow>
   getIvAndDecipher pf k (v @ ct) = (Some v, createDecipheriv pf k v ct)"
  by (simp add: getIvAndDecipher_def lengths Let_def)

lemma trimPadding_padded:
  "trimPadding (length p) (paddedPlaintext pf skip p @ rest) = p"
  by (simp add: trimPadding_def paddedPlaintext_def)

lemma frame_split:
  "frame pf ks v skip p =
     (v @ createCipheriv pf (take 32 ks) v (paddedPlaintext pf skip p))
       @ hmac_sha256 (drop 32 ks) (frameBody pf ks v skip p)"
  by (simp add: frame_def frameBody_def)

text \<open>The decryptor's pipeline on a file that holds a frame.\<close>

lemma runDecryptPipeline_frame:
  assumes rec: "decipherRecovers pf"
    and k: "length ks = 64" and v: "length v = 16"
    and fileC: "readFileStream (ciphertextPath options) w = Inr (frame pf ks v skip p)"
    and outer: "outerEncryption options = None"
    and sz: "size_opt options = length p"
    and mode: "\<forall>d. integrity options = Standard d \<longrightarrow> d = sha256 (frame pf ks v skip p)"
  shows "runDecryptPipeline pf logId options (take 32 ks) (drop 32 ks) MemorySink w =
     (Inr (Some v, p), p,
      snd (checkIntegrityType logId (integrity options) (sha256 (frame pf ks v skip p)) w))"
proof -
  let ?padded = "paddedPlaintext pf skip p"
  let ?ct = "createCipheriv pf (take 32 ks) v ?padded"
  let ?body = "frameBody pf ks v skip p"
  let ?mac = "hmac_sha256 (drop 32 ks) ?body"
  have "length (take 32 ks) = 32"
    using k by simp
  with rec v obtain rest where d: "createDecipheriv pf (take 32 ks) v ?ct = Inr (?padded @ rest)"
    unfolding decipherRecovers_def lengths by blast
  have body: "?body = v @ ?ct"
    by (simp add: frameBody_def)
  have f: "frame pf ks v skip p = ?body @ ?mac"
    by (simp add: frame_def)
  have mac: "getMacAndUpdateHmac (createHmac (drop 32 ks)) (frame pf ks v skip p)
      = Inr (?body, (drop 32 ks, ?body), ?mac)"
    unfolding f
    by (simp add: getMacAndUpdateHmac_split length_hmac_sha256 hmac_update_def createHmac_def)
  have dec: "getIvAndDecipher pf (take 32 ks) ?body = (Some v, Inr (?padded @ rest))"
    unfolding body using v d by (simp add: getIvAndDecipher_split)
  have chk: "finalStreamCheck logId (integrity options) (drop 32 ks, ?body)
        (frame pf ks v skip p) (Some ?mac) None w
      = (None, snd (checkIntegrityType logId (integrity options)
                      (sha256 (frame pf ks v skip p)) w))"
    using mode
    by (simp add: finalStreamCheck_asserted length_hmac_sha256 hmac_digest_def hash_digest_def
        checkIntegrityType_cases split: IntegrityType.splits)
  show ?thesis
    using fileC outer sz mac dec chk
    by (simp add: runDecryptPipeline_def peelOuter_def peekAndUpdateHash_def createHash_def
        hash_update_def trimPadding_padded)
qed

lemma decryptAttachmentV2ToSink_frame:
  assumes rec: "decipherRecovers pf"
    and k: "length ks = 64" and v: "length v = 16"
    and fileC: "readFileStream (ciphertextPath options) w = Inr (frame pf ks v skip p)"
    and outer: "outerEncryption options = None"
    and sz: "size_opt options = length p"
    and mode: "\<forall>d. integrity options = Standard d \<longrightarrow> d = sha256 (frame pf ks v skip p)"
    and rk: "resolveKeys pf (decryptKeys options) = splitKeys ks"
  shows "decryptAttachmentV2ToSink pf options MemorySink w =
     (Inr \<lparr>d_iv = v, d_plaintextHash = toHex (sha256 p)\<rparr>, p,
      snd (checkIntegrityType (decryptLogId (idForLogging options)) (integrity options)
             (sha256 (frame pf ks v skip p)) w))"
  using rk v
  by (simp add: decryptAttachmentV2ToSink_def splitKeys_right [OF k] Let_def
      runDecryptPipeline_frame [OF rec k v fileC outer sz mode]
      hash_digest_hex_def length_toHex length_sha256 lengths)

lemma ensureFile_fields:
  "ensureFile p w = Inr w0 \<Longrightarrow>
   readFault w0 = readFault w \<and> createDenied w0 = createDenied w
   \<and> unlinkDenied w0 = unlinkDenied w \<and> logs w0 = logs w \<and> files w0 p \<noteq> None"
  by (auto simp: ensureFile_def split: if_splits)

lemma checkDangerousIv_fields:
  "checkDangerousIv pf d w = Inr w1 \<Longrightarrow>
   readFault w1 = readFault w \<and> createDenied w1 = createDenied w
   \<and> unlinkDenied w1 = unlinkDenied w \<and> files w1 = files w"
  by (auto simp: checkDangerousIv_def split: option.splits HardcodedIVForEncryptionType.splits if_splits)

lemma chooseIv_fields:
  "chooseIv d w1 = (v, w2) \<Longrightarrow>
   readFault w2 = readFault w1 \<and> createDenied w2 = createDenied w1
   \<and> unlinkDenied w2 = unlinkDenied w1 \<and> files w2 = files w1 \<and> logs w2 = logs w1"
  by (auto simp: chooseIv_def generateAttachmentIv_def randomBytes_def split: option.splits)

text \<open>What a successful encryption to disk leaves: the record, and the frame in the file.\<close>

lemma encryptAttachmentV2ToDisk_Inr:
  assumes "encryptAttachmentV2ToDisk pf args rel w = (Inr r, w1)"
    and "plaintext args = Data p"
  shows "length (keys args) = 64 \<and> length (iv r) = 16 \<and> path r = rel
    \<and> files w1 (getAbsoluteAttachmentPath args rel)
        = Some (frame pf (keys args) (iv r) (dangerousTestOnlySkipPadding args) p)
    \<and> readFault w1 = readFault w
    \<and> digest r = sha256 (frame pf (keys args) (iv r) (dangerousTestOnlySkipPadding args) p)
    \<and> plaintextHash r = toHex (sha256 p)
    \<and> ciphertextSize r = length (frame pf (keys args) (iv r) (dangerousTestOnlySkipPadding args) p)"
proof -
  let ?abs = "getAbsoluteAttachmentPath args rel"
  obtain w0 where w0: "ensureFile ?abs w = Inr w0"
    using assms(1) by (cases "ensureFile ?abs w") (simp_all add: encryptAttachmentV2ToDisk_def)
  obtain res dl w2 where e0: "encryptAttachmentV2 pf args (Some (FileSink ?abs)) w0 = (res, dl, w2)"
    by (cases "encryptAttachmentV2 pf args (Some (FileSink ?abs)) w0") auto
  obtain r0 where e: "encryptAttachmentV2 pf args (Some (FileSink ?abs)) w0 = (Inr r0, dl, w1)"
    and r: "r = \<lparr>digest = digest r0, iv = iv r0, plaintextHash = plaintextHash r0,
                 ciphertextSize = ciphertextSize r0, path = rel\<rparr>"
    using assms(1) w0 e0
    by (cases res) (auto simp: encryptAttachmentV2ToDisk_def Let_def split: prod.splits option.splits)
  from encryptAttachmentV2_Inr [OF e] assms(2)
  obtain wa wb where k: "length (keys args) = 64" and v: "length (iv r0) = 16"
    and a: "checkDangerousIv pf (dangerousIv args) w0 = Inr wa"
    and b: "chooseIv (dangerousIv args) wa = (iv r0, wb)"
    and s: "sinkOrDiscard (Some (FileSink ?abs))
              (frame pf (keys args) (iv r0) (dangerousTestOnlySkipPadding args) p) wb
            = (None, dl, w1)"
    and d: "digest r0 = sha256 (frame pf (keys args) (iv r0) (dangerousTestOnlySkipPadding args) p)"
    and h: "plaintextHash r0 = toHex (sha256 p)"
    and n: "ciphertextSize r0
        = length (frame pf (keys args) (iv r0) (dangerousTestOnlySkipPadding args) p)"
    by auto
  from s have w1: "w1 = wb\<lparr>files := (files wb)(?abs \<mapsto>
        frame pf (keys args) (iv r0) (dangerousTestOnlySkipPadding args) p)\<rparr>"
    by (auto split: if_splits)
  have "readFault w1 = readFault w"
    using w1 ensureFile_fields [OF w0] checkDangerousIv_fields [OF a] chooseIv_fields [OF b]
    by simp
  then show ?thesis
    using k v d h n by (simp add: r w1)
qed

text \<open>
  C1. Let \<open>encryptAttachmentV2ToDisk\<close> have written the frame of the plaintext \<open>p\<close> under
  the combined key and returned the record \<open>r\<close>. Then \<open>decryptAttachmentV2ToSink\<close> on that
  file, with the same key (as its two halves or in base64), the declared size
  \<open>length p\<close>, no outer layer and, in \<open>standard\<close> mode, the digest of \<open>r\<close>, succeeds; the
  sink receives exactly \<open>p\<close>; the IV it returns is the one of \<open>r\<close>; and its
  \<open>plaintextHash\<close> and the encryptor's are both the lowercase hexadecimal SHA-256
  of \<open>p\<close>. The decipher is assumed to invert the cipher.
\<close>

theorem roundtrip:
  assumes "decipherRecovers pf"
    and "plaintext args = Data p"
    and "encryptAttachmentV2ToDisk pf args rel w = (Inr r, w1)"
    and "readFault w (getAbsoluteAttachmentPath args rel) = None"
    and "ciphertextPath options = getAbsoluteAttachmentPath args (path r)"
    and "size_opt options = length p"
    and "outerEncryption options = None"
    and "decryptKeys options = AesMacKeys (take 32 (keys args)) (drop 32 (keys args))
         \<or> (\<exists>s. decryptKeys options = KeysBase64 s \<and> fromBase64 pf s = keys args)"
    and "\<forall>d. integrity options = Standard d \<longrightarrow> d = digest r"
  shows "fst (decryptAttachmentV2ToSink pf options MemorySink w1)
           = Inr \<lparr>d_iv = iv r, d_plaintextHash = toHex (sha256 p)\<rparr>
       \<and> fst (snd (decryptAttachmentV2ToSink pf options MemorySink w1)) = p
       \<and> plaintextHash r = toHex (sha256 p)"
proof -
  let ?abs = "getAbsoluteAttachmentPath args rel"
  let ?f = "frame pf (keys args) (iv r) (dangerousTestOnlySkipPadding args) p"
  from encryptAttachmentV2ToDisk_Inr [OF assms(3,2)]
  have k: "length (keys args) = 64" and v: "length (iv r) = 16" and rel: "path r = rel"
    and stored: "files w1 ?abs = Some ?f" and fault: "readFault w1 = readFault w"
    and d: "digest r = sha256 ?f" and h: "plaintextHash r = toHex (sha256 p)"
    by auto
  have read: "readFileStream (ciphertextPath options) w1 = Inr ?f"
    using stored fault assms(4,5) rel by (simp add: readFileStream_def)
  have rk: "resolveKeys pf (decryptKeys options) = splitKeys (keys args)"
    using assms(8) k by (auto simp: resolveKeys_def splitKeys_right)
  have mode: "\<forall>d. integrity options = Standard d \<longrightarrow> d = sha256 ?f"
    using assms(9) d by simp
  show ?thesis
    using decryptAttachmentV2ToSink_frame [OF assms(1) k v read assms(7,6) mode rk] h
    by simp
qed


lemma ensureFile_allowed:
  "\<not> createDenied w p \<Longrightarrow> \<exists>w0. ensureFile p w = Inr w0 \<and> entropy w0 = entropy w
     \<and> drawn w0 = drawn w \<and> createDenied w0 = createDenied w"
  by (simp add: ensureFile_def)

text \<open>Encrypting bytes in memory to disk with a random IV, where the file can be created.\<close>

lemma encryptAttachmentV2ToDisk_random_iv:
  assumes "length (keys args) = 64" "plaintext args = Data p" "dangerousIv args = None"
    and "dangerousTestOnlySkipPadding args \<longrightarrow> isTestEnvironment pf"
    and "\<not> createDenied w (getAbsoluteAttachmentPath args rel)"
  shows "fst (encryptAttachmentV2ToDisk pf args rel w) =
     (let v = fst (randomBytes 16 w);
          f = frame pf (keys args) v (dangerousTestOnlySkipPadding args) p
      in Inr \<lparr>digest = sha256 f, iv = v, plaintextHash = toHex (sha256 p),
               ciphertextSize = length f, path = rel\<rparr>)"
proof -
  let ?abs = "getAbsoluteAttachmentPath args rel"
  obtain w0 where w0: "ensureFile ?abs w = Inr w0" and same: "entropy w0 = entropy w"
    "drawn w0 = drawn w" "createDenied w0 = createDenied w"
    using ensureFile_allowed [OF assms(5)] by blast
  obtain v w2 where r: "randomBytes 16 w0 = (v, w2)"
    by (cases "randomBytes 16 w0")
  have v: "v = fst (randomBytes 16 w)" and lv: "length v = 16"
    and c: "\<not> createDenied w2 ?abs"
    using r same assms(5) by (auto simp: randomBytes_def)
  have "encryptAttachmentV2 pf args (Some (FileSink ?abs)) w0 =
     (Inr \<lparr>digest = sha256 (frame pf (keys args) v (dangerousTestOnlySkipPadding args) p),
           iv = v, plaintextHash = toHex (sha256 p),
           ciphertextSize = length (frame pf (keys args) v (dangerousTestOnlySkipPadding args) p)\<rparr>,
      frame pf (keys args) v (dangerousTestOnlySkipPadding args) p,
      w2\<lparr>files := (files w2)(?abs \<mapsto> frame pf (keys args) v (dangerousTestOnlySkipPadding args) p)\<rparr>)"
    using assms(1-4) r lv c
    by (simp add: encryptAttachmentV2_valid_key checkDangerousIv_def chooseIv_def
        generateAttachmentIv_def lengths runEncryptPipeline_frame finishEncrypt_captured)
  then show ?thesis
    using w0 v by (simp add: encryptAttachmentV2ToDisk_def Let_def)
qed

lemma zero_entropy: "fst (randomBytes 16 emptyWorld) = replicate 16 0"
  by (simp add: randomBytes_def emptyWorld_def map_replicate_const)

theorem roundtrip_witness:
  "fst (snd (decryptAttachmentV2ToSink demoPlatform (demoOptions (Standard demoDigest)) MemorySink
       (snd (encryptAttachmentV2ToDisk demoPlatform (demoProps [1, 2, 3]) ''out'' emptyWorld))))
     = [1, 2, 3]
   \<and> map_sum id d_plaintextHash
       (fst (decryptAttachmentV2ToSink demoPlatform (demoOptions (Standard demoDigest)) MemorySink
          (snd (encryptAttachmentV2ToDisk demoPlatform (demoProps [1, 2, 3]) ''out'' emptyWorld))))
     = Inr (toHex (sha256 [1, 2, 3]))
   \<and> map_sum id plaintextHash
       (fst (encryptAttachmentV2ToDisk demoPlatform (demoProps [1, 2, 3]) ''out'' emptyWorld))
     = Inr (toHex (sha256 [1, 2, 3]))"
proof -
  let ?enc = "encryptAttachmentV2ToDisk demoPlatform (demoProps [1, 2, 3]) ''out'' emptyWorld"
  let ?r = "\<lparr>digest = demoDigest, iv = replicate 16 0, plaintextHash = toHex (sha256 [1, 2, 3]),
             ciphertextSize = length (frame demoPlatform (replicate 64 0) (replicate 16 0) False [1, 2, 3]),
             path = ''out''\<rparr>"
  have "fst ?enc = Inr ?r"
    using encryptAttachmentV2ToDisk_random_iv
      [of "demoProps [1, 2, 3]" "[1, 2, 3]" demoPlatform emptyWorld "''out''"]
    by (simp add: demoProps_def zero_entropy demoDigest_def Let_def) (simp add: emptyWorld_def)
  then have e: "?enc = (Inr ?r, snd ?enc)"
    by (metis prod.collapse)
  have "fst (decryptAttachmentV2ToSink demoPlatform (demoOptions (Standard demoDigest))
               MemorySink (snd ?enc))
           = Inr \<lparr>d_iv = iv ?r, d_plaintextHash = toHex (sha256 [1, 2, 3])\<rparr>
       \<and> fst (snd (decryptAttachmentV2ToSink demoPlatform (demoOptions (Standard demoDigest))
               MemorySink (snd ?enc))) = [1, 2, 3]
       \<and> plaintextHash ?r = toHex (sha256 [1, 2, 3])"
  proof (rule roundtrip [OF demo_decipherRecovers _ e])
    show "plaintext (demoProps [1, 2, 3]) = Data [1, 2, 3]"
      by (simp add: demoProps_def)
    show "readFault emptyWorld (getAbsoluteAttachmentPath (demoProps [1, 2, 3]) ''out'') = None"
      by (simp add: emptyWorld_def)
    show "ciphertextPath (demoOptions (Standard demoDigest))
        = getAbsoluteAttachmentPath (demoProps [1, 2, 3]) (path ?r)"
      by (simp add: demoOptions_def demoProps_def)
    show "size_opt (demoOptions (Standard demoDigest)) = length [1, 2, 3 :: byte]"
      by (simp add: demoOptions_def)
    show "outerEncryption (demoOptions (Standard demoDigest)) = None"
      by (simp add: demoOptions_def)
    show "decryptKeys (demoOptions (Standard demoDigest))
          = AesMacKeys (take 32 (keys (demoProps [1, 2, 3]))) (drop 32 (keys (demoProps [1, 2, 3])))
        \<or> (\<exists>s. decryptKeys (demoOptions (Standard demoDigest)) = KeysBase64 s
               \<and> fromBase64 demoPlatform s = keys (demoProps [1, 2, 3]))"
      by (simp add: demoOptions_def demoProps_def)
    show "\<forall>d. integrity (demoOptions (Standard demoDigest)) = Standard d \<longrightarrow> d = digest ?r"
      by (simp add: demoOptions_def)
  qed
  then show ?thesis
    using \<open>fst ?enc = Inr ?r\<close> by simp
qed

section \<open>What the decryptor's pipeline leaves behind\<close>

lemma samePermissions_refl [simp]: "samePermissions w w"
  by (simp add: samePermissions_def)

lemma samePermissions_trans:
  "samePermissions w w1 \<Longrightarrow> samePermissions w1 w2 \<Longrightarrow> samePermissions w w2"
  by (simp add: samePermissions_def)

lemma samePermissions_log [simp]:
  "samePermissions w (log_info msg w')  = samePermissions w w'"
  "samePermissions w (log_error msg e w') = samePermissions w w'"
  by (simp_all add: samePermissions_def)

lemma samePermissions_files [simp]:
  "samePermissions w (w'\<lparr>files := f\<rparr>) = samePermissions w w'"
  "samePermissions w (w'\<lparr>drawn := n\<rparr>) = samePermissions w w'"
  by (simp_all add: samePermissions_def)

lemma errorsLogged_simps [simp]:
  "errorsLogged (log_info msg w) = errorsLogged w"
  "errorsLogged (log_error msg e w) = errorsLogged w @ [LogError msg e]"
  "errorsLogged (w\<lparr>files := f\<rparr>) = errorsLogged w"
  "errorsLogged (w\<lparr>drawn := n\<rparr>) = errorsLogged w"
  by (simp_all add: errorsLogged_def log_info_def log_error_def)

lemma pipeToSink_quiet:
  "samePermissions w (snd (snd (pipeToSink sink out w)))"
  "errorsLogged (snd (snd (pipeToSink sink out w))) = errorsLogged w"
  by (cases sink; simp)+




lemma checkIntegrityType_quiet:
  "samePermissions w (snd (checkIntegrityType logId ty d w))"
  "errorsLogged (snd (checkIntegrityType logId ty d w)) = errorsLogged w"
  "files (snd (checkIntegrityType logId ty d w)) = files w"
  by (cases ty; simp)+

lemma finalStreamCheck_world:
  "snd (finalStreamCheck logId ty hmac dg tm outer w) = w
   \<or> snd (finalStreamCheck logId ty hmac dg tm outer w)
       = snd (checkIntegrityType logId ty (hash_digest dg) w)"
  by (simp add: finalStreamCheck_def Let_def split: option.splits prod.splits)

lemma finalStreamCheck_quiet:
  "samePermissions w (snd (finalStreamCheck logId ty hmac dg tm outer w))"
  "errorsLogged (snd (finalStreamCheck logId ty hmac dg tm outer w)) = errorsLogged w"
  "files (snd (finalStreamCheck logId ty hmac dg tm outer w)) = files w"
  using finalStreamCheck_world [of logId ty hmac dg tm outer w]
  by (auto simp: checkIntegrityType_quiet)

lemma pipeToSink_quietD:
  "pipeToSink sink out w = (r, dl, w') \<Longrightarrow>
   samePermissions w w' \<and> errorsLogged w' = errorsLogged w"
  using pipeToSink_quiet [where w = w and sink = sink and out = out] by simp

lemma finalStreamCheck_quietD:
  "finalStreamCheck logId ty hmac dg tm outer w = (r, w') \<Longrightarrow>
   samePermissions w w' \<and> errorsLogged w' = errorsLogged w \<and> files w' = files w"
  using finalStreamCheck_quiet [where w = w and logId = logId and ty = ty and hmac = hmac
      and dg = dg and tm = tm and outer = outer] by simp

text \<open>The decryptor's pipeline logs no error and changes no permission.\<close>

lemma runDecryptPipeline_quiet:
  "samePermissions w (snd (snd (runDecryptPipeline pf logId options akey mkey sink w)))
   \<and> errorsLogged (snd (snd (runDecryptPipeline pf logId options akey mkey sink w)))
       = errorsLogged w"
  unfolding runDecryptPipeline_def
  by (auto simp: Let_def split: sum.splits prod.splits option.splits
      dest!: pipeToSink_quietD finalStreamCheck_quietD intro: samePermissions_trans)

lemma runDecryptPipeline_quietD:
  "runDecryptPipeline pf logId options akey mkey sink w = (r, dl, w') \<Longrightarrow>
   samePermissions w w' \<and> errorsLogged w' = errorsLogged w"
  using runDecryptPipeline_quiet [where w = w and pf = pf and logId = logId
      and options = options and akey = akey and mkey = mkey and sink = sink] by simp

lemma decryptAttachmentV2ToSink_pipeline_error:
  assumes "resolveKeys pf (decryptKeys options) = Inr ks"
    and "runDecryptPipeline pf (decryptLogId (idForLogging options)) options
           (aesKey ks) (macKey ks) sink w = (Inl e, delivered, w1)"
  shows "decryptAttachmentV2ToSink pf options sink w =
     (Inl e, delivered,
      if e = Aborted then w1
      else log_error (decryptLogId (idForLogging options) @ '': Failed to decrypt attachment'') e w1)"
  using assms by (simp add: decryptAttachmentV2ToSink_def Let_def)

lemma decryptAttachmentV2ToSink_samePermissions:
  "samePermissions w (snd (snd (decryptAttachmentV2ToSink pf options sink w)))"
  unfolding decryptAttachmentV2ToSink_def
  by (auto simp: Let_def split: sum.splits prod.splits option.splits
      dest!: runDecryptPipeline_quietD)

lemma safeUnlinkSync_allowed:
  "\<not> unlinkDenied w p \<Longrightarrow>
   fst (safeUnlinkSync p w) = None \<and> files (snd (safeUnlinkSync p w)) p = None
   \<and> errorsLogged (snd (safeUnlinkSync p w)) = errorsLogged w"
  by (simp add: safeUnlinkSync_def unlinkSync_def)


lemma safeUnlinkSync_logs:
  "set (errorsLogged w) \<subseteq> set (errorsLogged (snd (safeUnlinkSync p w)))"
  by (auto simp: safeUnlinkSync_def unlinkSync_def)

lemma logUnlinkRethrow_logged:
  "LogError msg e \<in> set (errorsLogged (snd (logUnlinkRethrow msg e p w)))"
  using safeUnlinkSync_logs [of "log_error msg e w" p]
  by (auto simp: logUnlinkRethrow_def split: prod.splits option.splits)

lemma logUnlinkRethrow_allowed:
  "\<not> unlinkDenied w p \<Longrightarrow>
   fst (logUnlinkRethrow msg e p w) = e \<and> files (snd (logUnlinkRethrow msg e p w)) p = None"
  using safeUnlinkSync_allowed [of "log_error msg e w" p]
  by (auto simp: logUnlinkRethrow_def split: prod.splits option.splits)

lemma createWritePath_fields:
  "createWritePath p w = Inr w1 \<Longrightarrow> samePermissions w w1 \<and> errorsLogged w1 = errorsLogged w"
  by (auto simp: createWritePath_def ensureFile_def openForWrite_def split: if_splits sum.splits)

lemma decryptAttachmentV2_failed:
  assumes "createWritePath (getAbsoluteAttachmentPath' options rel) w = Inr w1"
    and "decryptAttachmentV2ToSink pf options (FileSink (getAbsoluteAttachmentPath' options rel)) w1
          = (Inl e, delivered, w2)"
  shows "decryptAttachmentV2 pf options rel w =
     (Inl (fst (logUnlinkRethrow (decryptLogId (idForLogging options)
                  @ '': Failed to decrypt attachment to disk'') e
                  (getAbsoluteAttachmentPath' options rel) w2)),
      snd (logUnlinkRethrow (decryptLogId (idForLogging options)
                  @ '': Failed to decrypt attachment to disk'') e
                  (getAbsoluteAttachmentPath' options rel) w2))"
  using assms by (simp add: decryptAttachmentV2_def Let_def split: prod.splits)

section \<open>C8: which errors the decryptors log\<close>

text \<open>
  As stated, C8 has abort errors re-raised without being logged by the file-producing
  \<open>decryptAttachmentV2\<close> too. Its catch block logs every error: with a ciphertext whose
  read stream is aborted it raises \<open>Aborted\<close> and logs it at error level.
\<close>

theorem abort_logged_to_disk_counterexample:
  "fst (decryptAttachmentV2 demoPlatform (diskOptions ''/c'' Local) ''out'' abortingWorld)
     = Inl Aborted
   \<and> errorsLogged (snd (decryptAttachmentV2 demoPlatform (diskOptions ''/c'' Local) ''out''
        abortingWorld))
     = [LogError ''decryptAttachmentV2(demo): Failed to decrypt attachment to disk'' Aborted]"
  by (simp add: decryptAttachmentV2_def diskOptions_def abortingWorld_def emptyWorld_def
      createWritePath_def ensureFile_def openForWrite_def decryptAttachmentV2ToSink_def
      resolveKeys_def runDecryptPipeline_def readFileStream_def decryptLogId_def
      logUnlinkRethrow_def safeUnlinkSync_def unlinkSync_def log_error_def errorsLogged_def)

text \<open>
  C8, amended. When the pipeline of \<open>decryptAttachmentV2ToSink\<close> fails, the call raises the
  pipeline's error; it logs nothing at error level when the error is an abort, and
  exactly one entry at error level, with the log id and the error, for any other
  error. \<open>decryptAttachmentV2\<close> logs every error that \<open>decryptAttachmentV2ToSink\<close> raises,
  aborts included, at error level with the log id, and raises it again (when the
  unlink of the output is not refused).
\<close>

theorem abort_logging:
  "(\<forall>ks e delivered w1.
       resolveKeys pf (decryptKeys options) = Inr ks \<longrightarrow>
       runDecryptPipeline pf (decryptLogId (idForLogging options)) options
           (aesKey ks) (macKey ks) sink w = (Inl e, delivered, w1) \<longrightarrow>
       fst (decryptAttachmentV2ToSink pf options sink w) = Inl e
       \<and> errorsLogged (snd (snd (decryptAttachmentV2ToSink pf options sink w)))
           = (if e = Aborted then errorsLogged w
              else errorsLogged w @
                [LogError (decryptLogId (idForLogging options) @ '': Failed to decrypt attachment'') e]))
   \<and> (\<forall>w1 e delivered w2.
       createWritePath (getAbsoluteAttachmentPath' options rel) w = Inr w1 \<longrightarrow>
       decryptAttachmentV2ToSink pf options (FileSink (getAbsoluteAttachmentPath' options rel)) w1
          = (Inl e, delivered, w2) \<longrightarrow>
       LogError (decryptLogId (idForLogging options) @ '': Failed to decrypt attachment to disk'') e
          \<in> set (errorsLogged (snd (decryptAttachmentV2 pf options rel w)))
       \<and> (\<not> unlinkDenied w (getAbsoluteAttachmentPath' options rel) \<longrightarrow>
            fst (decryptAttachmentV2 pf options rel w) = Inl e))"
proof (intro conjI allI impI)
  fix ks e delivered w1
  assume k: "resolveKeys pf (decryptKeys options) = Inr ks"
    and r: "runDecryptPipeline pf (decryptLogId (idForLogging options)) options
           (aesKey ks) (macKey ks) sink w = (Inl e, delivered, w1)"
  note d = decryptAttachmentV2ToSink_pipeline_error [OF k r]
  show "fst (decryptAttachmentV2ToSink pf options sink w) = Inl e"
    by (simp add: d)
  show "errorsLogged (snd (snd (decryptAttachmentV2ToSink pf options sink w)))
           = (if e = Aborted then errorsLogged w
              else errorsLogged w @
                [LogError (decryptLogId (idForLogging options) @ '': Failed to decrypt attachment'') e])"
    using runDecryptPipeline_quietD [OF r] by (simp add: d)
next
  fix w1 e delivered w2
  assume c: "createWritePath (getAbsoluteAttachmentPath' options rel) w = Inr w1"
    and s: "decryptAttachmentV2ToSink pf options (FileSink (getAbsoluteAttachmentPath' options rel)) w1
          = (Inl e, delivered, w2)"
  note d = decryptAttachmentV2_failed [OF c s]
  show "LogError (decryptLogId (idForLogging options) @ '': Failed to decrypt attachment to disk'') e
          \<in> set (errorsLogged (snd (decryptAttachmentV2 pf options rel w)))"
    by (simp add: d logUnlinkRethrow_logged)
  assume u: "\<not> unlinkDenied w (getAbsoluteAttachmentPath' options rel)"
  have "samePermissions w w2"
    using createWritePath_fields [OF c]
      decryptAttachmentV2ToSink_samePermissions
        [of w1 pf options "FileSink (getAbsoluteAttachmentPath' options rel)"] s
    by (auto intro: samePermissions_trans)
  then have "\<not> unlinkDenied w2 (getAbsoluteAttachmentPath' options rel)"
    using u by (simp add: samePermissions_def)
  then show "fst (decryptAttachmentV2 pf options rel w) = Inl e"
    by (simp add: d logUnlinkRethrow_allowed)
qed


theorem abort_logging_witness:
  "fst (decryptAttachmentV2ToSink demoPlatform (diskOptions ''/c'' Local) MemorySink abortingWorld)
     = Inl Aborted
   \<and> errorsLogged (snd (snd (decryptAttachmentV2ToSink demoPlatform (diskOptions ''/c'' Local)
        MemorySink abortingWorld))) = []
   \<and> errorsLogged (snd (snd (decryptAttachmentV2ToSink demoPlatform (diskOptions ''/c'' Local)
        MemorySink emptyWorld)))
     = [LogError ''decryptAttachmentV2(demo): Failed to decrypt attachment'' IoOpen]
   \<and> fst (decryptAttachmentV2 demoPlatform (diskOptions ''/c'' Local) ''out'' emptyWorld)
     = Inl IoOpen"
proof -
  let ?o = "diskOptions ''/c'' Local"
  let ?ks = "\<lparr>aesKey = replicate 32 0, macKey = replicate 32 0\<rparr>"
  let ?abs = "getAbsoluteAttachmentPath' ?o ''out''"
  have k: "resolveKeys demoPlatform (decryptKeys ?o) = Inr ?ks"
    by (simp add: resolveKeys_def diskOptions_def)
  have ra: "runDecryptPipeline demoPlatform (decryptLogId (idForLogging ?o)) ?o
      (aesKey ?ks) (macKey ?ks) MemorySink abortingWorld = (Inl Aborted, [], abortingWorld)"
    by (simp add: runDecryptPipeline_def readFileStream_def diskOptions_def abortingWorld_def)
  have re: "runDecryptPipeline demoPlatform (decryptLogId (idForLogging ?o)) ?o
      (aesKey ?ks) (macKey ?ks) sink w = (Inl IoOpen, [], w)" if "files w ''/c'' = None" for sink w
    using that by (simp add: runDecryptPipeline_def readFileStream_def diskOptions_def)
  have a: "fst (decryptAttachmentV2ToSink demoPlatform ?o MemorySink abortingWorld) = Inl Aborted
      \<and> errorsLogged (snd (snd (decryptAttachmentV2ToSink demoPlatform ?o MemorySink abortingWorld)))
          = errorsLogged abortingWorld"
    using abort_logging [of demoPlatform ?o MemorySink abortingWorld] k ra by simp
  have b: "errorsLogged (snd (snd (decryptAttachmentV2ToSink demoPlatform ?o MemorySink emptyWorld)))
      = errorsLogged emptyWorld
          @ [LogError (decryptLogId (idForLogging ?o) @ '': Failed to decrypt attachment'') IoOpen]"
    using abort_logging [of demoPlatform ?o MemorySink emptyWorld] k
      re [of emptyWorld MemorySink]
    by (simp add: emptyWorld_def)
  obtain w1 where c: "createWritePath ?abs emptyWorld = Inr w1" and f: "files w1 ''/c'' = None"
    by (simp add: createWritePath_def ensureFile_def openForWrite_def emptyWorld_def
        diskOptions_def)
  have "fst (decryptAttachmentV2ToSink demoPlatform ?o (FileSink ?abs) w1) = Inl IoOpen"
    using decryptAttachmentV2ToSink_pipeline_error [OF k re [OF f, of "FileSink ?abs"]] by simp
  then obtain dl w2 where
    s: "decryptAttachmentV2ToSink demoPlatform ?o (FileSink ?abs) w1 = (Inl IoOpen, dl, w2)"
    by (metis prod.collapse)
  have d: "fst (decryptAttachmentV2 demoPlatform ?o ''out'' emptyWorld) = Inl IoOpen"
    using abort_logging [of demoPlatform ?o MemorySink emptyWorld "''out''"] c s
    by (simp add: emptyWorld_def)
  show ?thesis
    using a b d
    by (simp add: errorsLogged_def abortingWorld_def emptyWorld_def decryptLogId_def diskOptions_def)
qed

section \<open>What the file-producing entry points leave behind\<close>























section \<open>C6: no output file after a failure\<close>





end
